theory Spec2Isabelle
  imports Main "HOL-Library.Char_ord" "HOL-Library.List_Lexorder" "HOL-Library.Sublist"
begin

section \<open>Data model of gazelle/resolve.go\<close>

text \<open>
  The records below are the structs that \<^verbatim>\<open>resolve.go\<close> reads and writes.
  \<^verbatim>\<open>ImportStatement\<close> is the plugin's own record of one import;
  \<^verbatim>\<open>ImportSpec\<close>, \<^verbatim>\<open>Label\<close> and \<^verbatim>\<open>FindResult\<close> are structs of the host tool
  (bazel-gazelle). Of a label, \<^verbatim>\<open>resolve.go\<close> itself reads \<^verbatim>\<open>Repo\<close>, \<^verbatim>\<open>Pkg\<close> and
  \<^verbatim>\<open>Name\<close> and writes \<^verbatim>\<open>Repo\<close>; of a result, it reads \<^verbatim>\<open>Label\<close>, which is the field
  \<open>MatchLabel\<close> here.
\<close>

record ImportStatement =
  Path :: string
  SourcePath :: string

record ImportSpec =
  Lang :: string
  Imp :: string

record Label =
  Repo :: string
  Pkg :: string
  Name :: string
  Relative :: bool

record FindResult =
  MatchLabel :: Label
  Embeds :: "Label list"

datatype EnvironmentType = EnvironmentNode | EnvironmentOther

text \<open>
  The per-package configuration \<^verbatim>\<open>cfg := cfgs[from.Pkg]\<close>. Its methods are defined
  outside \<^verbatim>\<open>resolve.go\<close>, so each is a field: a Go result \<^verbatim>\<open>(value, found)\<close> is an
  option.
\<close>

record PkgConfig =
  BaseDir :: string
  GetNpmPackage :: "string \<Rightarrow> string option"
  EnvType :: EnvironmentType
  ValidateImportStatements :: bool

text \<open>
  Everything else \<^verbatim>\<open>resolve.go\<close> calls without defining it: the package-level
  constants and helpers of the plugin, the registries of the \<^verbatim>\<open>TypeScript\<close> value,
  the override table and the rule index of the host, the host's label operations, and
  \<^verbatim>\<open>filepath.Rel\<close>, whose error is \<open>None\<close>. They are parameters of the model, so every
  theorem with a variable \<open>h\<close> holds whatever they compute. The two lookups of the
  host take the import specification and the language, as in the source; the
  configuration \<^verbatim>\<open>c\<close> they also take is the host itself.
\<close>

record Host =
  languageName :: string
  indexFileName :: string
  EXPLAIN_DEPENDENCY :: string
  Configs :: "string \<Rightarrow> PkgConfig"
  FindRuleWithOverride :: "ImportSpec \<Rightarrow> string \<Rightarrow> Label option"
  FindRulesByImportWithConfig :: "ImportSpec \<Rightarrow> string \<Rightarrow> FindResult list"
  IsSelfImport :: "FindResult \<Rightarrow> Label \<Rightarrow> bool"
  Label_Equal :: "Label \<Rightarrow> Label \<Rightarrow> bool"
  Label_String :: "Label \<Rightarrow> string"
  Label_Rel :: "Label \<Rightarrow> string \<Rightarrow> string \<Rightarrow> Label"
  GetNamedPackage :: "string \<Rightarrow> string option"
  GetImportableFile :: "string \<Rightarrow> string option"
  isNodeImport :: "string \<Rightarrow> bool"
  stripImportExtensions :: "string \<Rightarrow> string"
  isIndexFile :: "string \<Rightarrow> bool"
  filepath_Rel :: "string \<Rightarrow> string \<Rightarrow> string option"

section \<open>The dependency set and the log\<close>

text \<open>
  \<^verbatim>\<open>deps\<close> is a \<^verbatim>\<open>treeset\<close> with the string comparator: its contents in iteration
  order are a strictly increasing list, and \<^verbatim>\<open>Add\<close> inserts a string at its place
  unless it is there already. Strings compare byte by byte, which is the
  lexicographic order on \<^typ>\<open>char list\<close>.
\<close>

fun treeset_Add :: "string \<Rightarrow> string list \<Rightarrow> string list" where
  "treeset_Add x [] = [x]"
| "treeset_Add x (y # ys) =
     (if x = y then y # ys
      else if x < y then x # y # ys
      else y # treeset_Add x ys)"

text \<open>
  What the process writes to its log. Each constructor is one of the message templates
  of \<^verbatim>\<open>ResolveModuleDeps\<close> with the arguments it is formatted with, in the order of
  the source. The five explanation messages differ in their last clause only, which
  is the \<open>Resolution\<close>; the named-package rule and the importable-file rule write the
  same clause. The traces of \<^verbatim>\<open>DEBUG\<close> are left out.
\<close>

datatype Resolution =
    ByDirective
  | ByIndexedLabels
  | ByDeclaredPackage string
  | ByThirdPartyPackage string
  | ByThirdPartyTypesPackage string

datatype LogLine =
    Explaining string string string string Resolution
  | ErrorMultipleTargets string string string
  | ErrorUnknownDependency string string string

record ResolveState =
  deps :: "string list"
  hasFatalError :: bool
  logged :: "LogLine list"

datatype 'a Outcome = Returned 'a | Exited int

section \<open>ResolveModuleDeps\<close>

fun strings_Join :: "string list \<Rightarrow> string \<Rightarrow> string" where
  "strings_Join [] sep = []"
| "strings_Join [x] sep = x"
| "strings_Join (x # y # ys) sep = x @ sep @ strings_Join (y # ys) sep"

definition targetListFromResults :: "Host \<Rightarrow> FindResult list \<Rightarrow> string" where
  "targetListFromResults h results =
     strings_Join (map (\<lambda>result. Label_String h (MatchLabel result)) results) '', ''"

text \<open>
  The test \<^verbatim>\<open>if EXPLAIN_DEPENDENCY == dep { log.Printf(...) }\<close> that follows an
  \<^verbatim>\<open>Add\<close> in five of the branches: the lines it appends to the log.
\<close>

definition explain :: "Host \<Rightarrow> Label \<Rightarrow> ImportStatement \<Rightarrow> string \<Rightarrow> Resolution \<Rightarrow> LogLine list" where
  "explain h frm imod dep how =
     (if EXPLAIN_DEPENDENCY h = dep
      then [Explaining (EXPLAIN_DEPENDENCY h) (Label_String h frm) (SourcePath imod) (Path imod) how]
      else [])"

definition add_dep :: "string \<Rightarrow> LogLine list \<Rightarrow> ResolveState \<Rightarrow> ResolveState" where
  "add_dep dep ls st = st\<lparr>deps := treeset_Add dep (deps st), logged := logged st @ ls\<rparr>"

definition fatal :: "LogLine \<Rightarrow> ResolveState \<Rightarrow> ResolveState" where
  "fatal l st = st\<lparr>hasFatalError := True, logged := logged st @ [l]\<rparr>"

text \<open>
  The body of the loop over \<^verbatim>\<open>modules\<close>: one import statement, lines 131 to 236.
  The source's \<^verbatim>\<open>mod\<close> and \<^verbatim>\<open>from\<close> are written \<open>imod\<close> and \<open>frm\<close>, both
  names being reserved words here. The \<^verbatim>\<open>else if\<close> chain is the nesting of the
  \<open>case\<close> and \<open>if\<close> expressions, in the order of the source.
\<close>

definition resolve_import :: "Host \<Rightarrow> Label \<Rightarrow> ImportStatement \<Rightarrow> ResolveState \<Rightarrow> ResolveState" where
  "resolve_import h frm imod st =
    (let cfg = Configs h (Pkg frm);
         imp = \<lparr>Lang = languageName h, Imp = Path imod\<rparr>
     in case FindRuleWithOverride h imp (languageName h) of
       Some found \<Rightarrow>
         (let override = (if Repo found = [] then found\<lparr>Repo := Repo frm\<rparr> else found)
          in if \<not> Label_Equal h override frm
             then (let override' = (if Repo override = Repo frm then override\<lparr>Repo := []\<rparr> else override);
                       dep = Label_String h override'
                   in add_dep dep (explain h frm imod dep ByDirective) st)
             else st)
     | None \<Rightarrow>
         (let matches = FindRulesByImportWithConfig h imp (languageName h)
          in if length matches > 0
             then (let filteredMatches = filter (\<lambda>match. \<not> IsSelfImport h match frm) matches
                   in if length filteredMatches = 1
                      then (let matchLabel = Label_Rel h (MatchLabel (hd filteredMatches)) (Repo frm) (Pkg frm);
                                dep = Label_String h matchLabel
                            in add_dep dep (explain h frm imod dep ByIndexedLabels) st)
                      else if length filteredMatches > 1
                      then fatal (ErrorMultipleTargets (targetListFromResults h filteredMatches)
                                    (Path imod) (SourcePath imod)) st
                      else st)
             else (case GetNamedPackage h (Path imod) of
               Some pkg \<Rightarrow> add_dep pkg (explain h frm imod pkg (ByDeclaredPackage pkg)) st
             | None \<Rightarrow>
             (case GetImportableFile h (Path imod) of
               Some pkg \<Rightarrow> add_dep pkg (explain h frm imod pkg (ByDeclaredPackage pkg)) st
             | None \<Rightarrow>
             (case GetNpmPackage cfg (Path imod) of
               Some pkg \<Rightarrow>
                 (let st' = add_dep pkg (explain h frm imod pkg (ByThirdPartyPackage pkg)) st
                  in case GetNpmPackage cfg (''@types/'' @ Path imod) of
                       Some typePkg \<Rightarrow> add_dep typePkg [] st'
                     | None \<Rightarrow> st')
             | None \<Rightarrow>
             (case GetNpmPackage cfg (''@types/'' @ Path imod) of
               Some typePkg \<Rightarrow>
                 add_dep typePkg (explain h frm imod typePkg (ByThirdPartyTypesPackage typePkg)) st
             | None \<Rightarrow>
             if EnvType cfg = EnvironmentNode \<and> isNodeImport h (Path imod)
             then (case GetNpmPackage cfg ''@types/node'' of
                     Some typePkg \<Rightarrow> add_dep typePkg [] st
                   | None \<Rightarrow> st)
             else if ValidateImportStatements cfg
             then fatal (ErrorUnknownDependency (Label_String h frm) (Path imod) (SourcePath imod)) st
             else st))))))"

text \<open>The loop itself: \<^verbatim>\<open>modules\<close> in the order in which its iterator yields them.\<close>

fun resolve_imports :: "Host \<Rightarrow> Label \<Rightarrow> ImportStatement list \<Rightarrow> ResolveState \<Rightarrow> ResolveState" where
  "resolve_imports h frm [] st = st"
| "resolve_imports h frm (imod # mods) st = resolve_imports h frm mods (resolve_import h frm imod st)"

definition initial :: ResolveState where
  "initial = \<lparr>deps = [], hasFatalError = False, logged = []\<rparr>"

text \<open>
  The whole function: what was logged, and either the dependency set returned or the
  status of \<^verbatim>\<open>os.Exit\<close>.
\<close>

definition ResolveModuleDeps :: "Host \<Rightarrow> ImportStatement list \<Rightarrow> Label \<Rightarrow> LogLine list \<times> string list Outcome" where
  "ResolveModuleDeps h modules frm =
     (let st = resolve_imports h frm modules initial
      in (logged st, if hasFatalError st then Exited 1 else Returned (deps st)))"

section \<open>convertDependencySetToExpr\<close>

datatype Expr = NilExpr | StringExpr string | ListExpr "Expr list"

text \<open>
  The loop \<^verbatim>\<open>for it.Next() { deps[it.Index()] = &bzl.StringExpr{Value: dep} }\<close> over
  the set's iterator: the \<open>i\<close>-th value is written at index \<open>i\<close> of a slice that
  \<^verbatim>\<open>make\<close> filled with \<^verbatim>\<open>nil\<close>.
\<close>

fun fill_exprs :: "nat \<Rightarrow> string list \<Rightarrow> Expr list \<Rightarrow> Expr list" where
  "fill_exprs i [] ds = ds"
| "fill_exprs i (dep # rest) ds = fill_exprs (Suc i) rest (ds[i := StringExpr dep])"

definition convertDependencySetToExpr :: "string list \<Rightarrow> Expr" where
  "convertDependencySetToExpr set_values =
     ListExpr (fill_exprs 0 set_values (replicate (length set_values) NilExpr))"

section \<open>Imports\<close>

text \<open>
  The functions of Go's standard library that \<^verbatim>\<open>Imports\<close> calls, on slash-separated
  paths. \<^verbatim>\<open>strings.TrimRight(s, cutset)\<close> removes from the end of \<open>s\<close> every character
  that occurs in \<open>cutset\<close>; it does not remove a suffix.
\<close>

definition strings_TrimRight :: "string \<Rightarrow> string \<Rightarrow> string" where
  "strings_TrimRight s cutset = rev (dropWhile (\<lambda>c. c \<in> set cutset) (rev s))"

fun path_elems :: "string \<Rightarrow> string list" where
  "path_elems [] = [[]]"
| "path_elems (c # cs) =
     (if c = CHR ''/'' then [] # path_elems cs
      else (case path_elems cs of
              [] \<Rightarrow> [[c]]
            | e # es \<Rightarrow> (c # e) # es))"

text \<open>
  \<^verbatim>\<open>filepath.Clean\<close>, element by element: \<open>out\<close> is the output written so far, last
  element first. An empty element and \<^verbatim>\<open>.\<close> are dropped; \<^verbatim>\<open>..\<close> removes the last
  element written unless there is none to remove, and is then kept in a path that is
  not rooted.
\<close>

fun clean_elems :: "bool \<Rightarrow> string list \<Rightarrow> string list \<Rightarrow> string list" where
  "clean_elems rooted out [] = rev out"
| "clean_elems rooted out (e # es) =
     (if e = [] \<or> e = ''.'' then clean_elems rooted out es
      else if e = ''..'' then
        (case out of
           [] \<Rightarrow> if rooted then clean_elems rooted [] es else clean_elems rooted [''..''] es
         | lastElem # below \<Rightarrow>
             if lastElem = ''..'' then clean_elems rooted (''..'' # out) es
             else clean_elems rooted below es)
      else clean_elems rooted (e # out) es)"

definition filepath_Clean :: "string \<Rightarrow> string" where
  "filepath_Clean path =
     (if path = [] then ''.''
      else (let rooted = (hd path = CHR ''/'');
                out = (if rooted then ''/'' else []) @
                      strings_Join (clean_elems rooted [] (path_elems path)) ''/''
            in if out = [] then ''.'' else out))"

definition filepath_Join :: "string \<Rightarrow> string \<Rightarrow> string" where
  "filepath_Join a b =
     (if a \<noteq> [] then filepath_Clean (a @ ''/'' @ b)
      else if b \<noteq> [] then filepath_Clean b
      else [])"

definition filepath_Dir :: "string \<Rightarrow> string" where
  "filepath_Dir path = filepath_Clean (rev (dropWhile (\<lambda>c. c \<noteq> CHR ''/'') (rev path)))"

text \<open>
  What \<^verbatim>\<open>Imports\<close> prints on standard output: the error of \<^verbatim>\<open>filepath.Rel\<close>, with the
  base directory and the source it could not relate.
\<close>

datatype Printed = BaseDirError string string

text \<open>
  One round of the loop over \<^verbatim>\<open>srcs\<close>, lines 37 to 65: the import specifications one
  source file adds to \<^verbatim>\<open>provides\<close>.
\<close>

definition src_provides :: "Host \<Rightarrow> string \<Rightarrow> string \<Rightarrow> ImportSpec list" where
  "src_provides h pkg src0 =
     (let baseDir = BaseDir (Configs h pkg);
          src = filepath_Clean (filepath_Join pkg src0);
          specs = (case filepath_Rel h baseDir src of
                     None \<Rightarrow> [src]
                   | Some rebasedSrc \<Rightarrow> if rebasedSrc \<noteq> src then [src, rebasedSrc] else [src])
      in concat (map (\<lambda>spec0.
           (let spec = stripImportExtensions h spec0
            in \<lparr>Lang = languageName h, Imp = spec\<rparr> #
               (if isIndexFile h src
                then [\<lparr>Lang = languageName h,
                       Imp = strings_TrimRight (filepath_Dir spec) (indexFileName h)\<rparr>]
                else []))) specs))"

definition src_printed :: "Host \<Rightarrow> string \<Rightarrow> string \<Rightarrow> Printed list" where
  "src_printed h pkg src0 =
     (let baseDir = BaseDir (Configs h pkg);
          src = filepath_Clean (filepath_Join pkg src0)
      in case filepath_Rel h baseDir src of
           None \<Rightarrow> [BaseDirError baseDir src]
         | Some rebasedSrc \<Rightarrow> [])"

text \<open>
  \<^verbatim>\<open>Imports\<close>, for the rule's \<^verbatim>\<open>srcs\<close> and the package \<^verbatim>\<open>f.Pkg\<close>: what it prints, and
  \<^verbatim>\<open>provides\<close>, or \<open>None\<close> for the \<^verbatim>\<open>nil\<close> it returns when there is nothing.
\<close>

definition Imports :: "Host \<Rightarrow> string list \<Rightarrow> string \<Rightarrow> Printed list \<times> ImportSpec list option" where
  "Imports h srcs pkg =
     (let provides = concat (map (src_provides h pkg) srcs)
      in (concat (map (src_printed h pkg) srcs),
          if length provides = 0 then None else Some provides))"

section \<open>A workspace to run the model on\<close>

text \<open>
  The parameters of \<open>Host\<close> need values before the model can be run on an input.
  The label operations are given the behaviour of bazel-gazelle's \<^verbatim>\<open>label\<close> and
  \<^verbatim>\<open>resolve\<close> packages: \<^verbatim>\<open>Equal\<close> compares the four fields, \<^verbatim>\<open>String\<close> writes
  \<^verbatim>\<open>@repo//pkg:name\<close> with the usual abbreviations, \<^verbatim>\<open>Rel\<close> abbreviates a label of the
  same repository, and a result is a self import when its label or one of its embeds
  is the requesting label.
\<close>

definition path_Base :: "string \<Rightarrow> string" where
  "path_Base p =
     (if p = [] then ''.''
      else (let q = dropWhile (\<lambda>c. c = CHR ''/'') (rev p)
            in if q = [] then ''/'' else rev (takeWhile (\<lambda>c. c \<noteq> CHR ''/'') q)))"

definition gazelle_Equal :: "Label \<Rightarrow> Label \<Rightarrow> bool" where
  "gazelle_Equal l other =
     (Repo l = Repo other \<and> Pkg l = Pkg other \<and> Name l = Name other \<and> Relative l = Relative other)"

definition gazelle_String :: "Label \<Rightarrow> string" where
  "gazelle_String l =
     (if Relative l then '':'' @ Name l
      else (let repo = (if Repo l \<noteq> [] \<and> Repo l \<noteq> ''@'' then ''@'' @ Repo l else Repo l)
            in if path_Base (Pkg l) = Name l then repo @ ''//'' @ Pkg l
               else repo @ ''//'' @ Pkg l @ '':'' @ Name l))"

definition gazelle_Rel :: "Label \<Rightarrow> string \<Rightarrow> string \<Rightarrow> Label" where
  "gazelle_Rel l repo pkg =
     (if Relative l \<or> Repo l \<noteq> repo then l
      else if Pkg l = pkg then \<lparr>Repo = [], Pkg = [], Name = Name l, Relative = True\<rparr>
      else \<lparr>Repo = [], Pkg = Pkg l, Name = Name l, Relative = False\<rparr>)"

definition gazelle_IsSelfImport :: "FindResult \<Rightarrow> Label \<Rightarrow> bool" where
  "gazelle_IsSelfImport r frm =
     (gazelle_Equal frm (MatchLabel r) \<or> list_ex (gazelle_Equal frm) (Embeds r))"

definition target :: "string \<Rightarrow> string \<Rightarrow> Label" where
  "target pkg name = \<lparr>Repo = [], Pkg = pkg, Name = name, Relative = False\<rparr>"

definition provided_by :: "Label \<Rightarrow> FindResult" where
  "provided_by l = \<lparr>MatchLabel = l, Embeds = []\<rparr>"

text \<open>
  Three packages. \<^verbatim>\<open>app\<close> is a Node package with a registry of npm packages and
  validation switched on; \<^verbatim>\<open>tools\<close> is a Node package with validation on and nothing
  registered; \<^verbatim>\<open>web\<close> is not a Node package and does not validate. Every other
  package is configured as \<^verbatim>\<open>app\<close> is. The base directory is the workspace root
  everywhere.
\<close>

definition app_npm :: "string \<Rightarrow> string option" where
  "app_npm = [''react'' \<mapsto> ''//:node_modules/react'',
              ''@types/react'' \<mapsto> ''//:node_modules/@types/react'',
              ''jquery'' \<mapsto> ''//:node_modules/jquery'',
              ''@types/jquery'' \<mapsto> ''//:node_modules/@types/jquery'',
              ''@types/lodash'' \<mapsto> ''//:node_modules/@types/lodash'',
              ''@types/node'' \<mapsto> ''//:node_modules/@types/node'']"

definition example_Configs :: "string \<Rightarrow> PkgConfig" where
  "example_Configs pkg =
     (if pkg = ''tools''
      then \<lparr>BaseDir = ''.'', GetNpmPackage = Map.empty, EnvType = EnvironmentNode,
            ValidateImportStatements = True\<rparr>
      else if pkg = ''web''
      then \<lparr>BaseDir = ''.'', GetNpmPackage = Map.empty, EnvType = EnvironmentOther,
            ValidateImportStatements = False\<rparr>
      else \<lparr>BaseDir = ''.'', GetNpmPackage = app_npm, EnvType = EnvironmentNode,
            ValidateImportStatements = True\<rparr>)"

text \<open>
  The directives \<^verbatim>\<open>gazelle:resolve\<close> of the workspace, and its rule index: which
  targets provide which import path.
\<close>

definition example_overrides :: "string \<Rightarrow> Label option" where
  "example_overrides = [''lib/a'' \<mapsto> target ''lib'' ''a'',
                        ''app/self'' \<mapsto> target ''app'' ''main'',
                        ''jquery'' \<mapsto> \<lparr>Repo = ''vendor'', Pkg = ''jquery'', Name = ''jquery'', Relative = False\<rparr>]"

definition example_index :: "string \<Rightarrow> FindResult list" where
  "example_index path =
     (if path = ''lib/a'' then [provided_by (target ''lib'' ''a_impl'')]
      else if path = ''app/self'' then [provided_by (target ''lib'' ''self'')]
      else if path = ''jquery'' then [provided_by (target ''lib'' ''jquery'')]
      else if path = ''app/util'' then [provided_by (target ''app'' ''util''), provided_by (target ''lib'' ''util'')]
      else if path = ''app/main'' then [provided_by (target ''app'' ''main'')]
      else if path = ''app/one'' then [provided_by (target ''app'' ''main''), provided_by (target ''app'' ''one'')]
      else [])"

text \<open>
  The helpers of the plugin: extensions \<^verbatim>\<open>.tsx\<close>, \<^verbatim>\<open>.ts\<close> and \<^verbatim>\<open>.js\<close> are stripped, an
  index file is one whose base name without its extension is \<^verbatim>\<open>index\<close>, and three
  module names count as built into Node. The named package \<^verbatim>\<open>@org/lib\<close> is declared at
  \<^verbatim>\<open>//lib:pkg\<close>, and the importable file \<^verbatim>\<open>app/data.json\<close> belongs to \<^verbatim>\<open>//app:main\<close>.
  \<^verbatim>\<open>filepath.Rel\<close> is given for the base directory \<^verbatim>\<open>.\<close> only, the one the packages
  have: a clean relative path is then its own result.
\<close>

definition strip_ts :: "string \<Rightarrow> string" where
  "strip_ts p =
     (if prefix (rev ''.tsx'') (rev p) then take (length p - 4) p
      else if prefix (rev ''.ts'') (rev p) then take (length p - 3) p
      else if prefix (rev ''.js'') (rev p) then take (length p - 3) p
      else p)"

definition example_host :: Host where
  "example_host =
     \<lparr>languageName = ''js'',
      indexFileName = ''index'',
      EXPLAIN_DEPENDENCY = [],
      Configs = example_Configs,
      FindRuleWithOverride = (\<lambda>imp lang. if Lang imp = lang then example_overrides (Imp imp) else None),
      FindRulesByImportWithConfig = (\<lambda>imp lang. if Lang imp = lang then example_index (Imp imp) else []),
      IsSelfImport = gazelle_IsSelfImport,
      Label_Equal = gazelle_Equal,
      Label_String = gazelle_String,
      Label_Rel = gazelle_Rel,
      GetNamedPackage = [''@org/lib'' \<mapsto> ''//lib:pkg''],
      GetImportableFile = [''app/data.json'' \<mapsto> ''//app:main''],
      isNodeImport = (\<lambda>p. p \<in> set [''fs'', ''path'', ''node:fs'']),
      stripImportExtensions = strip_ts,
      isIndexFile = (\<lambda>src. strip_ts (path_Base src) = ''index''),
      filepath_Rel = (\<lambda>base targ. if base = ''.'' then Some targ else None)\<rparr>"

definition import_of :: "string \<Rightarrow> ImportStatement" where
  "import_of p = \<lparr>Path = p, SourcePath = ''app/main.ts''\<rparr>"

section \<open>Vocabulary of the theorems\<close>

text \<open>
  Names for what the body of the loop computes on its way, so that the theorems can
  speak of it: the override found for an import, the matches of the index, the
  candidates left after the self imports are removed, the override after its
  repository is defaulted, and the strings the two label rules render.
\<close>

definition override_for :: "Host \<Rightarrow> ImportStatement \<Rightarrow> Label option" where
  "override_for h imod =
     FindRuleWithOverride h \<lparr>Lang = languageName h, Imp = Path imod\<rparr> (languageName h)"

definition matches_for :: "Host \<Rightarrow> ImportStatement \<Rightarrow> FindResult list" where
  "matches_for h imod =
     FindRulesByImportWithConfig h \<lparr>Lang = languageName h, Imp = Path imod\<rparr> (languageName h)"

definition candidates_for :: "Host \<Rightarrow> Label \<Rightarrow> ImportStatement \<Rightarrow> FindResult list" where
  "candidates_for h frm imod = filter (\<lambda>match. \<not> IsSelfImport h match frm) (matches_for h imod)"

definition resolved_override :: "Label \<Rightarrow> Label \<Rightarrow> Label" where
  "resolved_override frm found = (if Repo found = [] then found\<lparr>Repo := Repo frm\<rparr> else found)"

definition rendered_override :: "Host \<Rightarrow> Label \<Rightarrow> Label \<Rightarrow> string" where
  "rendered_override h frm found =
     (let override = resolved_override frm found
      in Label_String h (if Repo override = Repo frm then override\<lparr>Repo := []\<rparr> else override))"

text \<open>
  The label that the override rule hands to \<^verbatim>\<open>String\<close>: the override after its
  repository is defaulted, and dropped again when it is the requester's.
\<close>

definition override_label :: "Label \<Rightarrow> Label \<Rightarrow> Label" where
  "override_label frm found =
     (let override = resolved_override frm found
      in if Repo override = Repo frm then override\<lparr>Repo := []\<rparr> else override)"

definition rendered_match :: "Host \<Rightarrow> Label \<Rightarrow> FindResult \<Rightarrow> string" where
  "rendered_match h frm c = Label_String h (Label_Rel h (MatchLabel c) (Repo frm) (Pkg frm))"

text \<open>The strings one import statement contributes to the dependency set.\<close>

definition adds :: "Host \<Rightarrow> Label \<Rightarrow> ImportStatement \<Rightarrow> string set" where
  "adds h frm imod = set (deps (resolve_import h frm imod initial))"

text \<open>
  The conditions under which the chain of rules gets past its first four rules
  (override, index, named package, importable file), past the two rules of the npm
  registry, and the condition of the native-module rule.
\<close>

definition no_first_party_rule :: "Host \<Rightarrow> ImportStatement \<Rightarrow> bool" where
  "no_first_party_rule h imod \<longleftrightarrow>
     override_for h imod = None \<and> matches_for h imod = [] \<and>
     GetNamedPackage h (Path imod) = None \<and> GetImportableFile h (Path imod) = None"

definition no_third_party_rule :: "Host \<Rightarrow> Label \<Rightarrow> ImportStatement \<Rightarrow> bool" where
  "no_third_party_rule h frm imod \<longleftrightarrow>
     GetNpmPackage (Configs h (Pkg frm)) (Path imod) = None \<and>
     GetNpmPackage (Configs h (Pkg frm)) (''@types/'' @ Path imod) = None"

definition native_module :: "Host \<Rightarrow> Label \<Rightarrow> ImportStatement \<Rightarrow> bool" where
  "native_module h frm imod \<longleftrightarrow>
     EnvType (Configs h (Pkg frm)) = EnvironmentNode \<and> isNodeImport h (Path imod)"

text \<open>
  A string that one of the registry rules can find for an import: the named package,
  the importable file, the npm package, its \<^verbatim>\<open>@types/\<close> package, or \<^verbatim>\<open>@types/node\<close>.
\<close>

definition registered_for :: "Host \<Rightarrow> Label \<Rightarrow> ImportStatement \<Rightarrow> string \<Rightarrow> bool" where
  "registered_for h frm imod d \<longleftrightarrow>
     GetNamedPackage h (Path imod) = Some d \<or>
     GetImportableFile h (Path imod) = Some d \<or>
     GetNpmPackage (Configs h (Pkg frm)) (Path imod) = Some d \<or>
     GetNpmPackage (Configs h (Pkg frm)) (''@types/'' @ Path imod) = Some d \<or>
     GetNpmPackage (Configs h (Pkg frm)) ''@types/node'' = Some d"

definition matched_by_no_rule :: "Host \<Rightarrow> Label \<Rightarrow> ImportStatement \<Rightarrow> bool" where
  "matched_by_no_rule h frm imod \<longleftrightarrow>
     no_first_party_rule h imod \<and> no_third_party_rule h frm imod \<and> \<not> native_module h frm imod"

section \<open>Properties\<close>

subsection \<open>The dependency set and the state\<close>

lemma set_treeset_Add: "set (treeset_Add x xs) = insert x (set xs)"
  by (induction xs) auto

lemma strict_treeset_Add: "sorted_wrt (<) xs \<Longrightarrow> sorted_wrt (<) (treeset_Add x xs)"
  by (induction xs) (auto simp: set_treeset_Add)

lemma deps_add_dep: "deps (add_dep d ls st) = treeset_Add d (deps st)"
  and fatal_add_dep: "hasFatalError (add_dep d ls st) = hasFatalError st"
  and logged_add_dep: "logged (add_dep d ls st) = logged st @ ls"
  by (simp_all add: add_dep_def)

lemma deps_fatal: "deps (fatal l st) = deps st"
  and fatal_fatal: "hasFatalError (fatal l st) = True"
  and logged_fatal: "logged (fatal l st) = logged st @ [l]"
  by (simp_all add: fatal_def)

lemmas st_simps = deps_add_dep fatal_add_dep logged_add_dep deps_fatal fatal_fatal logged_fatal

subsection \<open>The branches of the loop body\<close>

lemmas vocabulary = override_for_def matches_for_def candidates_for_def resolved_override_def
  rendered_override_def rendered_match_def

lemma resolve_import_override:
  assumes "override_for h imod = Some found"
  shows "resolve_import h frm imod st =
           (if Label_Equal h (resolved_override frm found) frm then st
            else add_dep (rendered_override h frm found)
                   (explain h frm imod (rendered_override h frm found) ByDirective) st)"
  using assms by (simp add: resolve_import_def vocabulary Let_def)

lemma list_cases3:
  obtains "xs = []" | x where "xs = [x]" | x y zs where "xs = x # y # zs"
  by (cases xs rule: list.exhaust) (auto intro: list.exhaust[of "tl xs"])

lemma resolve_import_index:
  assumes "override_for h imod = None" and "matches_for h imod \<noteq> []"
  shows "resolve_import h frm imod st =
           (case candidates_for h frm imod of
              [] \<Rightarrow> st
            | [c] \<Rightarrow> add_dep (rendered_match h frm c) (explain h frm imod (rendered_match h frm c) ByIndexedLabels) st
            | c # c' # cs \<Rightarrow> fatal (ErrorMultipleTargets (targetListFromResults h (candidates_for h frm imod))
                                     (Path imod) (SourcePath imod)) st)"
  using assms
  by (cases "candidates_for h frm imod" rule: list_cases3)
     (simp_all add: resolve_import_def vocabulary Let_def)

lemma resolve_import_registries:
  assumes "no_first_party_rule h imod"
  shows "resolve_import h frm imod st =
     (let cfg = Configs h (Pkg frm) in
      case GetNpmPackage cfg (Path imod) of
        Some pkg \<Rightarrow>
          (case GetNpmPackage cfg (''@types/'' @ Path imod) of
             Some typePkg \<Rightarrow> add_dep typePkg [] (add_dep pkg (explain h frm imod pkg (ByThirdPartyPackage pkg)) st)
           | None \<Rightarrow> add_dep pkg (explain h frm imod pkg (ByThirdPartyPackage pkg)) st)
      | None \<Rightarrow>
          (case GetNpmPackage cfg (''@types/'' @ Path imod) of
             Some typePkg \<Rightarrow> add_dep typePkg (explain h frm imod typePkg (ByThirdPartyTypesPackage typePkg)) st
           | None \<Rightarrow>
               if native_module h frm imod
               then (case GetNpmPackage cfg ''@types/node'' of
                       Some typePkg \<Rightarrow> add_dep typePkg [] st
                     | None \<Rightarrow> st)
               else if ValidateImportStatements cfg
               then fatal (ErrorUnknownDependency (Label_String h frm) (Path imod) (SourcePath imod)) st
               else st))"
  using assms
  by (simp add: resolve_import_def no_first_party_rule_def native_module_def vocabulary Let_def
           split: option.splits)

subsection \<open>What one import and a list of imports do to the state\<close>

lemma resolve_import_deps_set:
  "set (deps (resolve_import h frm m st)) = set (deps st) \<union> adds h frm m"
  by (auto simp: adds_def resolve_import_def Let_def st_simps set_treeset_Add initial_def split: option.splits)

lemma resolve_import_strict:
  "sorted_wrt (<) (deps st) \<Longrightarrow> sorted_wrt (<) (deps (resolve_import h frm m st))"
  by (auto simp: resolve_import_def Let_def st_simps strict_treeset_Add split: option.splits)

lemma resolve_import_fatal:
  "hasFatalError (resolve_import h frm m st) = (hasFatalError st \<or> hasFatalError (resolve_import h frm m initial))"
  by (auto simp: resolve_import_def Let_def st_simps initial_def split: option.splits)

lemma resolve_import_logged:
  "logged (resolve_import h frm m st) = logged st @ logged (resolve_import h frm m initial)"
  by (auto simp: resolve_import_def Let_def st_simps initial_def split: option.splits)

lemma resolve_imports_append:
  "resolve_imports h frm (xs @ ys) st = resolve_imports h frm ys (resolve_imports h frm xs st)"
  by (induction xs arbitrary: st) simp_all

lemma resolve_imports_deps_set:
  "set (deps (resolve_imports h frm ms st)) = set (deps st) \<union> (\<Union>m\<in>set ms. adds h frm m)"
  by (induction ms arbitrary: st) (auto simp: resolve_import_deps_set)

lemma resolve_imports_strict:
  "sorted_wrt (<) (deps st) \<Longrightarrow> sorted_wrt (<) (deps (resolve_imports h frm ms st))"
  by (induction ms arbitrary: st) (simp_all add: resolve_import_strict)

lemma resolve_imports_fatal:
  "hasFatalError (resolve_imports h frm ms st) \<longleftrightarrow>
     hasFatalError st \<or> (\<exists>m\<in>set ms. hasFatalError (resolve_import h frm m initial))"
proof (induction ms arbitrary: st)
  case Nil
  show ?case by simp
next
  case (Cons m ms)
  show ?case
    by (simp add: Cons.IH resolve_import_fatal[of h frm m st] disj_assoc)
qed

lemma resolve_imports_logged_mono:
  "set (logged st) \<subseteq> set (logged (resolve_imports h frm ms st))"
proof (induction ms arbitrary: st)
  case Nil
  show ?case by simp
next
  case (Cons m ms)
  have "set (logged st) \<subseteq> set (logged (resolve_import h frm m st))"
    by (simp add: resolve_import_logged[of h frm m st])
  also have "\<dots> \<subseteq> set (logged (resolve_imports h frm ms (resolve_import h frm m st)))"
    by (rule Cons.IH)
  finally show ?case by simp
qed


subsection \<open>Running the model\<close>

lemmas example_defs = example_host_def example_Configs_def example_overrides_def example_index_def
  app_npm_def import_of_def target_def provided_by_def strip_ts_def path_Base_def
  gazelle_Equal_def gazelle_String_def gazelle_Rel_def gazelle_IsSelfImport_def

lemmas run_defs = ResolveModuleDeps_def resolve_import_def initial_def add_dep_def fatal_def
  explain_def targetListFromResults_def Let_def

lemma sublist_strings_Join: "x \<in> set xs \<Longrightarrow> sublist x (strings_Join xs sep)"
proof (induction xs sep rule: strings_Join.induct)
  case (1 sep)
  then show ?case by simp
next
  case (2 y sep)
  then show ?case by simp
next
  case (3 y z zs sep)
  show ?case
  proof (cases "x = y")
    case True
    then show ?thesis by (simp add: sublist_append_rightI)
  next
    case False
    with 3 have "sublist x (strings_Join (z # zs) sep)" by simp
    then obtain ps ss where "strings_Join (z # zs) sep = ps @ x @ ss"
      by (auto simp: sublist_def)
    then have "strings_Join (y # z # zs) sep = (y @ sep @ ps) @ x @ ss"
      by simp
    then show ?thesis
      unfolding sublist_def by blast
  qed
qed

lemma ResolveModuleDeps_exits:
  "snd (ResolveModuleDeps h modules frm) = Exited 1 \<longleftrightarrow>
     (\<exists>m\<in>set modules. hasFatalError (resolve_import h frm m initial))"
  by (simp add: ResolveModuleDeps_def Let_def resolve_imports_fatal initial_def)

subsection \<open>C3: an ambiguous import is fatal\<close>

text \<open>
  Claim C3. Take an import for which no override directive is found and whose index
  lookup leaves more than one candidate once the requesting target is excluded. The
  loop body then leaves the dependency set as it is (the import adds nothing), appends
  to the log the error whose target list is the comma-joined labels of the
  candidates, each of which occurs in it, and sets the fatal flag. The loop goes on
  with the imports that follow, and whatever stands before and after the import in the
  list, \<^verbatim>\<open>ResolveModuleDeps\<close> has logged the error and exits with status 1.
\<close>

theorem ambiguous_import_is_fatal:
  assumes "override_for h imod = None"
      and "1 < length (candidates_for h frm imod)"
  shows "(let err = ErrorMultipleTargets (targetListFromResults h (candidates_for h frm imod))
                      (Path imod) (SourcePath imod)
          in resolve_import h frm imod st = st\<lparr>hasFatalError := True, logged := logged st @ [err]\<rparr>
           \<and> adds h frm imod = {}
           \<and> (\<forall>c\<in>set (candidates_for h frm imod).
                 sublist (Label_String h (MatchLabel c))
                         (targetListFromResults h (candidates_for h frm imod)))
           \<and> resolve_imports h frm (before @ imod # after) st =
               resolve_imports h frm after
                 ((resolve_imports h frm before st)\<lparr>hasFatalError := True,
                     logged := logged (resolve_imports h frm before st) @ [err]\<rparr>)
           \<and> err \<in> set (fst (ResolveModuleDeps h (before @ imod # after) frm))
           \<and> snd (ResolveModuleDeps h (before @ imod # after) frm) = Exited 1)"
proof -
  define err where "err = ErrorMultipleTargets (targetListFromResults h (candidates_for h frm imod))
                      (Path imod) (SourcePath imod)"
  from assms(2) have ne: "matches_for h imod \<noteq> []"
    by (auto simp: candidates_for_def)
  from assms(2) obtain c c' cs where cands: "candidates_for h frm imod = c # c' # cs"
    by (cases "candidates_for h frm imod" rule: list_cases3) auto
  have step: "resolve_import h frm imod s = s\<lparr>hasFatalError := True, logged := logged s @ [err]\<rparr>" for s
    using resolve_import_index[OF assms(1) ne, of frm s] cands
    by (simp add: err_def fatal_def)
  have none: "adds h frm imod = {}"
    by (simp add: adds_def step initial_def)
  have named: "\<forall>c\<in>set (candidates_for h frm imod).
                 sublist (Label_String h (MatchLabel c))
                         (targetListFromResults h (candidates_for h frm imod))"
    by (auto simp: targetListFromResults_def intro!: sublist_strings_Join)
  have loop: "resolve_imports h frm (before @ imod # after) st =
               resolve_imports h frm after
                 ((resolve_imports h frm before st)\<lparr>hasFatalError := True,
                     logged := logged (resolve_imports h frm before st) @ [err]\<rparr>)"
    by (simp add: resolve_imports_append step)
  have "err \<in> set (logged (resolve_import h frm imod (resolve_imports h frm before initial)))"
    by (simp add: step)
  also have "\<dots> \<subseteq> set (logged (resolve_imports h frm after
                 (resolve_import h frm imod (resolve_imports h frm before initial))))"
    by (rule resolve_imports_logged_mono)
  finally have said: "err \<in> set (fst (ResolveModuleDeps h (before @ imod # after) frm))"
    by (simp add: ResolveModuleDeps_def Let_def resolve_imports_append)
  have "hasFatalError (resolve_import h frm imod initial)"
    by (simp add: step)
  then have exits: "snd (ResolveModuleDeps h (before @ imod # after) frm) = Exited 1"
    by (auto simp: ResolveModuleDeps_exits)
  from step[of st] none named loop said exits show ?thesis
    unfolding Let_def err_def by blast
qed

theorem ambiguous_import_is_fatal_witness:
  "override_for example_host (import_of ''app/util'') = None
   \<and> length (candidates_for example_host (target ''app'' ''main'') (import_of ''app/util'')) = 2
   \<and> adds example_host (target ''app'' ''main'') (import_of ''app/util'') = {}
   \<and> ResolveModuleDeps example_host
        [import_of ''react'', import_of ''app/util'', import_of ''lib/a''] (target ''app'' ''main'')
      = ([ErrorMultipleTargets ''//app:util, //lib:util'' ''app/util'' ''app/main.ts''], Exited 1)"
proof -
  have h1: "override_for example_host (import_of ''app/util'') = None"
    by (simp add: vocabulary example_defs)
  have h2: "length (candidates_for example_host (target ''app'' ''main'') (import_of ''app/util'')) = 2"
    by (simp add: vocabulary example_defs)
  then have h2': "1 < length (candidates_for example_host (target ''app'' ''main'') (import_of ''app/util''))"
    by simp
  have run: "ResolveModuleDeps example_host
        [import_of ''react'', import_of ''app/util'', import_of ''lib/a''] (target ''app'' ''main'')
      = ([ErrorMultipleTargets ''//app:util, //lib:util'' ''app/util'' ''app/main.ts''], Exited 1)"
    by (simp add: run_defs example_defs)
  from ambiguous_import_is_fatal[OF h1 h2', of initial "[import_of ''react'']" "[import_of ''lib/a'']"]
  have "adds example_host (target ''app'' ''main'') (import_of ''app/util'') = {}"
    unfolding Let_def by blast
  with h1 h2 run show ?thesis by blast
qed

subsection \<open>Runs of the whole function\<close>

lemma ResolveModuleDeps_unchanged:
  assumes "\<And>m st. m \<in> set modules \<Longrightarrow> resolve_import h frm m st = st"
  shows "ResolveModuleDeps h modules frm = ([], Returned [])"
proof -
  have "resolve_imports h frm ms st = st" if "set ms \<subseteq> set modules" for ms st
    using that by (induction ms arbitrary: st) (simp_all add: assms)
  then show ?thesis
    by (simp add: ResolveModuleDeps_def Let_def initial_def)
qed

lemma logged_ResolveModuleDeps:
  assumes "l \<in> set (logged (resolve_import h frm imod initial))"
  shows "l \<in> set (fst (ResolveModuleDeps h (before @ imod # after) frm))"
proof -
  let ?st = "resolve_imports h frm before initial"
  from assms have "l \<in> set (logged (resolve_import h frm imod ?st))"
    by (simp add: resolve_import_logged[of h frm imod ?st])
  also have "\<dots> \<subseteq> set (logged (resolve_imports h frm after (resolve_import h frm imod ?st)))"
    by (rule resolve_imports_logged_mono)
  finally show ?thesis
    by (simp add: ResolveModuleDeps_def Let_def resolve_imports_append)
qed

subsection \<open>C4: an import that no rule matches\<close>

text \<open>
  Claim C4. Take an import that none of the rules matches: no override, no match in
  the index, no named package, no importable file, neither the path nor its
  \<^verbatim>\<open>@types/\<close> package in the npm registry, and not a native module of a Node package.
  When the package validates its imports, the loop body logs the unresolved-import
  error, which cites the requesting target, the import path and the source file, and
  sets the fatal flag, so that \<^verbatim>\<open>ResolveModuleDeps\<close> exits with status 1 once the list
  is processed, whatever else the list holds. When the package does not validate, the
  loop body changes nothing: no dependency, no log line, no flag; and a list made of
  such imports returns the empty dependency set without exiting.
\<close>

theorem unresolved_import_validation:
  assumes "matched_by_no_rule h frm imod"
  shows "(let err = ErrorUnknownDependency (Label_String h frm) (Path imod) (SourcePath imod);
              validate = ValidateImportStatements (Configs h (Pkg frm))
          in (validate \<longrightarrow>
                resolve_import h frm imod st = st\<lparr>hasFatalError := True, logged := logged st @ [err]\<rparr>
              \<and> err \<in> set (fst (ResolveModuleDeps h (before @ imod # after) frm))
              \<and> snd (ResolveModuleDeps h (before @ imod # after) frm) = Exited 1)
           \<and> (\<not> validate \<longrightarrow>
                resolve_import h frm imod st = st
              \<and> adds h frm imod = {}
              \<and> ((\<forall>m\<in>set modules. matched_by_no_rule h frm m) \<longrightarrow>
                   ResolveModuleDeps h modules frm = ([], Returned []))))"
proof -
  let ?validate = "ValidateImportStatements (Configs h (Pkg frm))"
  let ?err = "ErrorUnknownDependency (Label_String h frm) (Path imod) (SourcePath imod)"
  have step: "resolve_import h frm m s =
                (if ?validate
                 then s\<lparr>hasFatalError := True,
                        logged := logged s @ [ErrorUnknownDependency (Label_String h frm) (Path m) (SourcePath m)]\<rparr>
                 else s)"
    if "matched_by_no_rule h frm m" for m s
    using that resolve_import_registries[of h m frm s]
    by (simp add: matched_by_no_rule_def no_third_party_rule_def fatal_def Let_def)
  have on: "resolve_import h frm imod st = st\<lparr>hasFatalError := True, logged := logged st @ [?err]\<rparr>
            \<and> ?err \<in> set (fst (ResolveModuleDeps h (before @ imod # after) frm))
            \<and> snd (ResolveModuleDeps h (before @ imod # after) frm) = Exited 1"
    if v: "?validate"
  proof -
    from v have "?err \<in> set (logged (resolve_import h frm imod initial))"
      and "hasFatalError (resolve_import h frm imod initial)"
      by (simp_all add: step[OF assms])
    then show ?thesis
      using v by (auto simp: step[OF assms] logged_ResolveModuleDeps ResolveModuleDeps_exits)
  qed
  have off: "resolve_import h frm imod st = st \<and> adds h frm imod = {}
             \<and> ((\<forall>m\<in>set modules. matched_by_no_rule h frm m) \<longrightarrow>
                   ResolveModuleDeps h modules frm = ([], Returned []))"
    if v: "\<not> ?validate"
  proof -
    have "ResolveModuleDeps h modules frm = ([], Returned [])"
      if "\<forall>m\<in>set modules. matched_by_no_rule h frm m"
      using that v by (intro ResolveModuleDeps_unchanged) (simp add: step)
    then show ?thesis
      using v by (simp add: step[OF assms] adds_def initial_def)
  qed
  from on off show ?thesis
    unfolding Let_def by blast
qed

theorem unresolved_import_validation_witness:
  "matched_by_no_rule example_host (target ''app'' ''main'') (import_of ''nothing'')
   \<and> ValidateImportStatements (Configs example_host ''app'')
   \<and> snd (ResolveModuleDeps example_host [import_of ''react'', import_of ''nothing'', import_of ''lib/a'']
            (target ''app'' ''main'')) = Exited 1
   \<and> fst (ResolveModuleDeps example_host [import_of ''react'', import_of ''nothing'', import_of ''lib/a'']
            (target ''app'' ''main'')) = [ErrorUnknownDependency ''//app:main'' ''nothing'' ''app/main.ts'']
   \<and> matched_by_no_rule example_host (target ''web'' ''main'') (import_of ''nothing'')
   \<and> matched_by_no_rule example_host (target ''web'' ''main'') (import_of ''fs'')
   \<and> \<not> ValidateImportStatements (Configs example_host ''web'')
   \<and> ResolveModuleDeps example_host [import_of ''nothing'', import_of ''fs''] (target ''web'' ''main'')
       = ([], Returned [])"
proof -
  let ?app = "target ''app'' ''main''" and ?web = "target ''web'' ''main''"
  have a: "matched_by_no_rule example_host ?app (import_of ''nothing'')"
    by (simp add: matched_by_no_rule_def no_first_party_rule_def no_third_party_rule_def
          native_module_def vocabulary example_defs)
  have va: "ValidateImportStatements (Configs example_host (Pkg ?app))"
    by (simp add: example_defs)
  have w: "matched_by_no_rule example_host ?web (import_of ''nothing'')"
          "matched_by_no_rule example_host ?web (import_of ''fs'')"
    by (simp_all add: matched_by_no_rule_def no_first_party_rule_def no_third_party_rule_def
          native_module_def vocabulary example_defs)
  have vw: "\<not> ValidateImportStatements (Configs example_host (Pkg ?web))"
    by (simp add: example_defs)
  have said: "fst (ResolveModuleDeps example_host
                [import_of ''react'', import_of ''nothing'', import_of ''lib/a''] ?app)
              = [ErrorUnknownDependency ''//app:main'' ''nothing'' ''app/main.ts'']"
    by (simp add: run_defs example_defs)
  from unresolved_import_validation[OF a, of initial "[import_of ''react'']" "[import_of ''lib/a'']"] va
  have exits: "snd (ResolveModuleDeps example_host
                [import_of ''react'', import_of ''nothing'', import_of ''lib/a''] ?app) = Exited 1"
    unfolding Let_def by simp
  from unresolved_import_validation[OF w(1), of initial _ _ "[import_of ''nothing'', import_of ''fs'']"] vw w
  have returns: "ResolveModuleDeps example_host [import_of ''nothing'', import_of ''fs''] ?web
                 = ([], Returned [])"
    unfolding Let_def by simp
  from a va w vw said exits returns show ?thesis
    by (simp add: target_def)
qed

subsection \<open>C7: the native-module fallback\<close>



subsection \<open>C10: an import that only the requesting target provides\<close>

text \<open>
  Claim C10. Take an import whose index lookup is made (line 156 is reached, so no
  override directive was found for it) and returns at least one match, every match
  being a self import of the requesting target. No candidate is left; the loop body
  changes nothing: no dependency, no error, no log line. The later rules are not
  consulted: the result is the same whatever the named-package registry, the
  importable-file registry, the configuration of the packages (its npm registry,
  environment type and validation flag) and the native-module test are. A run on that
  import alone returns the empty set.
\<close>

theorem self_matches_resolve_to_nothing:
  assumes "override_for h imod = None"
      and "matches_for h imod \<noteq> []"
      and "\<forall>match\<in>set (matches_for h imod). IsSelfImport h match frm"
  shows "candidates_for h frm imod = []
       \<and> resolve_import h frm imod st = st
       \<and> (\<forall>named files cfgs native.
            resolve_import
              (h\<lparr>GetNamedPackage := named, GetImportableFile := files, Configs := cfgs,
                 isNodeImport := native\<rparr>) frm imod st = st)
       \<and> ResolveModuleDeps h [imod] frm = ([], Returned [])"
proof -
  from assms(3) have none: "candidates_for h frm imod = []"
    by (simp add: candidates_for_def)
  have step: "resolve_import h frm imod s = s" for s
    using resolve_import_index[OF assms(1,2), of frm s] none by simp
  have later: "resolve_import
              (h\<lparr>GetNamedPackage := named, GetImportableFile := files, Configs := cfgs,
                 isNodeImport := native\<rparr>) frm imod st = st" for named files cfgs native
  proof -
    let ?h' = "h\<lparr>GetNamedPackage := named, GetImportableFile := files, Configs := cfgs,
                 isNodeImport := native\<rparr>"
    have 1: "override_for ?h' imod = None"
      using assms(1) by (simp add: override_for_def)
    have 2: "matches_for ?h' imod \<noteq> []"
      using assms(2) by (simp add: matches_for_def)
    have 3: "candidates_for ?h' frm imod = []"
      using none by (simp add: candidates_for_def matches_for_def)
    from resolve_import_index[OF 1 2, of frm st] 3 show ?thesis by simp
  qed
  have "ResolveModuleDeps h [imod] frm = ([], Returned [])"
    by (simp add: ResolveModuleDeps_def step initial_def)
  with none step later show ?thesis by blast
qed

theorem self_matches_resolve_to_nothing_witness:
  "override_for example_host (import_of ''app/main'') = None
   \<and> matches_for example_host (import_of ''app/main'') = [provided_by (target ''app'' ''main'')]
   \<and> IsSelfImport example_host (provided_by (target ''app'' ''main'')) (target ''app'' ''main'')
   \<and> ValidateImportStatements (Configs example_host ''app'')
   \<and> ResolveModuleDeps example_host [import_of ''app/main''] (target ''app'' ''main'') = ([], Returned [])"
proof -
  let ?app = "target ''app'' ''main''"
  have h1: "override_for example_host (import_of ''app/main'') = None"
    by (simp add: vocabulary example_defs)
  have m: "matches_for example_host (import_of ''app/main'') = [provided_by ?app]"
    by (simp add: vocabulary example_defs)
  have self: "IsSelfImport example_host (provided_by ?app) ?app"
    by (simp add: example_defs)
  have v: "ValidateImportStatements (Configs example_host ''app'')"
    by (simp add: example_defs)
  from m have h2: "matches_for example_host (import_of ''app/main'') \<noteq> []"
    by simp
  from m self have h3: "\<forall>match\<in>set (matches_for example_host (import_of ''app/main'')).
           IsSelfImport example_host match ?app"
    by simp
  from self_matches_resolve_to_nothing[OF h1 h2 h3, of initial]
  have "ResolveModuleDeps example_host [import_of ''app/main''] ?app = ([], Returned [])"
    by blast
  with h1 m self v show ?thesis by blast
qed

subsection \<open>Serialising the set\<close>

lemma fill_exprs_eq:
  "i + length xs \<le> length ds \<Longrightarrow>
   fill_exprs i xs ds = take i ds @ map StringExpr xs @ drop (i + length xs) ds"
proof (induction xs arbitrary: i ds)
  case Nil
  then show ?case by simp
next
  case (Cons x xs)
  let ?ds = "ds[i := StringExpr x]"
  from Cons.prems have i: "i < length ds" by simp
  from Cons.prems have "Suc i + length xs \<le> length ?ds" by simp
  then have "fill_exprs (Suc i) xs ?ds =
               take (Suc i) ?ds @ map StringExpr xs @ drop (Suc i + length xs) ?ds"
    by (rule Cons.IH)
  moreover from i have "take (Suc i) ?ds = take i ds @ [StringExpr x]"
    by (simp add: take_Suc_conv_app_nth)
  moreover have "drop (Suc i + length xs) ?ds = drop (Suc i + length xs) ds"
    by simp
  ultimately show ?case by simp
qed

lemma convertDependencySetToExpr_eq:
  "convertDependencySetToExpr ds = ListExpr (map StringExpr ds)"
  by (simp add: convertDependencySetToExpr_def fill_exprs_eq)

lemma ResolveModuleDeps_returns:
  assumes "snd (ResolveModuleDeps h modules frm) = Returned ds"
  shows "sorted_wrt (<) ds" and "set ds = (\<Union>imod\<in>set modules. adds h frm imod)"
proof -
  from assms have ds: "ds = deps (resolve_imports h frm modules initial)"
    by (simp add: ResolveModuleDeps_def Let_def split: if_splits)
  have "sorted_wrt (<) (deps initial)"
    by (simp add: initial_def)
  then show "sorted_wrt (<) ds"
    unfolding ds by (rule resolve_imports_strict)
  show "set ds = (\<Union>imod\<in>set modules. adds h frm imod)"
    unfolding ds by (simp add: resolve_imports_deps_set initial_def)
qed

subsection \<open>C6: the order of the imports does not matter\<close>

text \<open>
  Claim C6. Two collections that hold the same import statements, in whatever order,
  give \<^verbatim>\<open>ResolveModuleDeps\<close> the same outcome: the same dependency set, or the same
  exit. The set that is returned is strictly increasing in the order of strings, so it
  is sorted and has no duplicate; it holds what the imports contribute and nothing
  else; and \<^verbatim>\<open>convertDependencySetToExpr\<close> writes its strings in that order into the
  list expression.
\<close>

theorem resolve_order_independent:
  assumes "set modules = set modules'"
  shows "snd (ResolveModuleDeps h modules frm) = snd (ResolveModuleDeps h modules' frm)
       \<and> (\<forall>ds. snd (ResolveModuleDeps h modules frm) = Returned ds \<longrightarrow>
             sorted ds \<and> distinct ds
           \<and> set ds = (\<Union>imod\<in>set modules. adds h frm imod)
           \<and> convertDependencySetToExpr ds = ListExpr (map StringExpr ds))"
proof -
  let ?st = "resolve_imports h frm modules initial"
  let ?st' = "resolve_imports h frm modules' initial"
  have flag: "hasFatalError ?st = hasFatalError ?st'"
    by (simp add: resolve_imports_fatal assms)
  have "sorted_wrt (<) (deps initial)"
    by (simp add: initial_def)
  then have "sorted_wrt (<) (deps ?st)" and "sorted_wrt (<) (deps ?st')"
    by (rule resolve_imports_strict)+
  moreover have "set (deps ?st') = set (deps ?st)"
    by (simp add: resolve_imports_deps_set assms)
  ultimately have "deps ?st' = deps ?st"
    by (rule strict_sorted_equal)
  with flag have same: "snd (ResolveModuleDeps h modules frm) = snd (ResolveModuleDeps h modules' frm)"
    by (simp add: ResolveModuleDeps_def Let_def)
  have "sorted ds \<and> distinct ds
           \<and> set ds = (\<Union>imod\<in>set modules. adds h frm imod)
           \<and> convertDependencySetToExpr ds = ListExpr (map StringExpr ds)"
    if "snd (ResolveModuleDeps h modules frm) = Returned ds" for ds
    using ResolveModuleDeps_returns[OF that]
    by (simp add: strict_sorted_iff convertDependencySetToExpr_eq)
  with same show ?thesis by blast
qed

theorem resolve_order_independent_witness:
  "set [import_of ''react'', import_of ''lib/a'', import_of ''fs'']
     = set [import_of ''fs'', import_of ''react'', import_of ''lib/a'']
   \<and> snd (ResolveModuleDeps example_host
            [import_of ''react'', import_of ''lib/a'', import_of ''fs''] (target ''app'' ''main''))
     = Returned [''//:node_modules/@types/node'', ''//:node_modules/@types/react'',
                 ''//:node_modules/react'', ''//lib:a'']
   \<and> snd (ResolveModuleDeps example_host
            [import_of ''fs'', import_of ''react'', import_of ''lib/a'']
            (target ''app'' ''main''))
     = Returned [''//:node_modules/@types/node'', ''//:node_modules/@types/react'',
                 ''//:node_modules/react'', ''//lib:a'']
   \<and> convertDependencySetToExpr
        [''//:node_modules/@types/node'', ''//:node_modules/@types/react'',
         ''//:node_modules/react'', ''//lib:a'']
     = ListExpr [StringExpr ''//:node_modules/@types/node'', StringExpr ''//:node_modules/@types/react'',
                 StringExpr ''//:node_modules/react'', StringExpr ''//lib:a'']"
proof -
  let ?ms = "[import_of ''react'', import_of ''lib/a'', import_of ''fs'']"
  let ?ms' = "[import_of ''fs'', import_of ''react'', import_of ''lib/a'']"
  let ?ds = "[''//:node_modules/@types/node'', ''//:node_modules/@types/react'',
              ''//:node_modules/react'', ''//lib:a'']"
  have same: "set ?ms = set ?ms'"
    by auto
  have run: "snd (ResolveModuleDeps example_host ?ms (target ''app'' ''main'')) = Returned ?ds"
    by (simp add: run_defs example_defs)
  note T = resolve_order_independent[OF same, of example_host "target ''app'' ''main''"]
  from T run have run': "snd (ResolveModuleDeps example_host ?ms' (target ''app'' ''main'')) = Returned ?ds"
    by simp
  from T run have "convertDependencySetToExpr ?ds = ListExpr (map StringExpr ?ds)"
    by blast
  with same run run' show ?thesis by simp
qed

lemma ResolveModuleDeps_member:
  assumes "snd (ResolveModuleDeps h modules frm) = Returned ds"
      and "imod \<in> set modules" and "d \<in> adds h frm imod"
  shows "d \<in> set ds"
  using assms ResolveModuleDeps_returns(2)[OF assms(1)] by blast

subsection \<open>C1: an override directive comes before the index\<close>

text \<open>
  Claim C1, as amended. Take an import for which an override directive is found,
  whether or not the index has matches for it. If the override, once an unset
  repository is defaulted to the requester's, is equal to the requesting target, the
  loop body changes nothing. Otherwise it adds the rendered label of the override (the
  repository dropped when it is the requester's) to the dependency set, explains it
  when asked to, and does nothing else; the label is then in the set that
  \<^verbatim>\<open>ResolveModuleDeps\<close> returns for any list that holds the import. In both cases no
  later rule is consulted: the result is the same whatever the index, the self-import
  test, the registries, the configuration of the packages and the native-module test
  are.
\<close>

theorem override_precedes_index:
  assumes "override_for h imod = Some found"
  shows "resolve_import h frm imod st =
           (if Label_Equal h (resolved_override frm found) frm then st
            else st\<lparr>deps := treeset_Add (rendered_override h frm found) (deps st),
                    logged := logged st @
                      explain h frm imod (rendered_override h frm found) ByDirective\<rparr>)
       \<and> adds h frm imod =
           (if Label_Equal h (resolved_override frm found) frm then {}
            else {rendered_override h frm found})
       \<and> (\<forall>ix self rel named files cfgs native.
            resolve_import
              (h\<lparr>FindRulesByImportWithConfig := ix, IsSelfImport := self, Label_Rel := rel,
                 GetNamedPackage := named, GetImportableFile := files, Configs := cfgs,
                 isNodeImport := native\<rparr>) frm imod st
            = resolve_import h frm imod st)
       \<and> (\<forall>ds. \<not> Label_Equal h (resolved_override frm found) frm \<and> imod \<in> set modules \<and>
                snd (ResolveModuleDeps h modules frm) = Returned ds \<longrightarrow>
                rendered_override h frm found \<in> set ds)"
proof -
  let ?self = "Label_Equal h (resolved_override frm found) frm"
  let ?dep = "rendered_override h frm found"
  have step: "resolve_import h frm imod s =
           (if ?self then s
            else s\<lparr>deps := treeset_Add ?dep (deps s),
                   logged := logged s @ explain h frm imod ?dep ByDirective\<rparr>)" for s
    using resolve_import_override[OF assms, of frm s] by (simp add: add_dep_def)
  have contributed: "adds h frm imod = (if ?self then {} else {?dep})"
    by (simp add: adds_def step initial_def)
  have later: "resolve_import
              (h\<lparr>FindRulesByImportWithConfig := ix, IsSelfImport := self, Label_Rel := rel,
                 GetNamedPackage := named, GetImportableFile := files, Configs := cfgs,
                 isNodeImport := native\<rparr>) frm imod st
            = resolve_import h frm imod st" for ix self rel named files cfgs native
  proof -
    let ?h' = "h\<lparr>FindRulesByImportWithConfig := ix, IsSelfImport := self, Label_Rel := rel,
                 GetNamedPackage := named, GetImportableFile := files, Configs := cfgs,
                 isNodeImport := native\<rparr>"
    have "override_for ?h' imod = Some found"
      using assms by (simp add: override_for_def)
    from resolve_import_override[OF this, of frm st] show ?thesis
      by (simp add: step add_dep_def rendered_override_def explain_def)
  qed
  have returned: "?dep \<in> set ds"
    if "\<not> ?self" and "imod \<in> set modules"
      and "snd (ResolveModuleDeps h modules frm) = Returned ds" for ds
    using that contributed ResolveModuleDeps_member[of h modules frm ds imod ?dep] by simp
  from step[of st] contributed later returned show ?thesis by blast
qed

theorem override_precedes_index_witness:
  "override_for example_host (import_of ''lib/a'') = Some (target ''lib'' ''a'')
   \<and> matches_for example_host (import_of ''lib/a'') = [provided_by (target ''lib'' ''a_impl'')]
   \<and> \<not> Label_Equal example_host
         (resolved_override (target ''app'' ''main'') (target ''lib'' ''a'')) (target ''app'' ''main'')
   \<and> rendered_override example_host (target ''app'' ''main'') (target ''lib'' ''a'') = ''//lib:a''
   \<and> adds example_host (target ''app'' ''main'') (import_of ''lib/a'') = {''//lib:a''}
   \<and> ResolveModuleDeps example_host [import_of ''lib/a''] (target ''app'' ''main'')
        = ([], Returned [''//lib:a''])"
proof -
  let ?app = "target ''app'' ''main''"
  have o: "override_for example_host (import_of ''lib/a'') = Some (target ''lib'' ''a'')"
    by (simp add: vocabulary example_defs)
  have m: "matches_for example_host (import_of ''lib/a'') = [provided_by (target ''lib'' ''a_impl'')]"
    by (simp add: vocabulary example_defs)
  have other: "\<not> Label_Equal example_host (resolved_override ?app (target ''lib'' ''a'')) ?app"
    by (simp add: vocabulary example_defs)
  have r: "rendered_override example_host ?app (target ''lib'' ''a'') = ''//lib:a''"
    by (simp add: vocabulary example_defs Let_def)
  have run: "ResolveModuleDeps example_host [import_of ''lib/a''] ?app = ([], Returned [''//lib:a''])"
    by (simp add: run_defs example_defs)
  from override_precedes_index[OF o, of ?app initial] other r
  have "adds example_host ?app (import_of ''lib/a'') = {''//lib:a''}"
    by simp
  with o m other r run show ?thesis by (intro conjI)
qed

text \<open>
  The claim as it was stated fails for an override that names the requesting target:
  \<^verbatim>\<open>//app:main\<close> imports \<^verbatim>\<open>app/self\<close>, a directive resolves that path to
  \<^verbatim>\<open>//app:main\<close> and the index has a match for it, yet nothing is added.
\<close>

theorem override_precedes_index_counterexample:
  "override_for example_host (import_of ''app/self'') = Some (target ''app'' ''main'')
   \<and> matches_for example_host (import_of ''app/self'') = [provided_by (target ''lib'' ''self'')]
   \<and> rendered_override example_host (target ''app'' ''main'') (target ''app'' ''main'') = ''//app:main''
   \<and> ''//app:main'' \<notin> adds example_host (target ''app'' ''main'') (import_of ''app/self'')
   \<and> ResolveModuleDeps example_host [import_of ''app/self''] (target ''app'' ''main'')
        = ([], Returned [])"
  by (simp add: adds_def vocabulary run_defs example_defs)

subsection \<open>C2: what the rules test against the requesting target\<close>

lemma rendered_override_label:
  "rendered_override h frm found = Label_String h (override_label frm found)"
  by (simp add: rendered_override_def override_label_def Let_def)

lemma override_label_not_requester:
  assumes "resolved_override frm found \<noteq> frm"
  shows "override_label frm found \<noteq> frm\<lparr>Repo := []\<rparr>"
proof
  let ?o = "resolved_override frm found"
  assume eq: "override_label frm found = frm\<lparr>Repo := []\<rparr>"
  show False
  proof (cases "Repo ?o = Repo frm")
    case True
    with eq have "?o\<lparr>Repo := []\<rparr> = frm\<lparr>Repo := []\<rparr>"
      by (simp add: override_label_def Let_def)
    then have "Pkg ?o = Pkg frm" "Name ?o = Name frm" "Relative ?o = Relative frm"
      by (metis Label.select_convs Label.surjective Label.update_convs)+
    with True have "?o = frm" by simp
    with assms show False by simp
  next
    case False
    with eq have "?o = frm\<lparr>Repo := []\<rparr>"
      by (simp add: override_label_def Let_def)
    then have "Repo ?o = []" by simp
    then have "Repo frm = []"
      by (simp add: resolved_override_def split: if_splits)
    with \<open>Repo ?o = []\<close> False show False by simp
  qed
qed

lemma resolve_import_named:
  assumes "override_for h imod = None" and "matches_for h imod = []"
      and "GetNamedPackage h (Path imod) = Some pkg"
  shows "resolve_import h frm imod st = add_dep pkg (explain h frm imod pkg (ByDeclaredPackage pkg)) st"
  using assms by (simp add: resolve_import_def vocabulary Let_def)

lemma resolve_import_importable:
  assumes "override_for h imod = None" and "matches_for h imod = []"
      and "GetNamedPackage h (Path imod) = None"
      and "GetImportableFile h (Path imod) = Some pkg"
  shows "resolve_import h frm imod st = add_dep pkg (explain h frm imod pkg (ByDeclaredPackage pkg)) st"
  using assms by (simp add: resolve_import_def vocabulary Let_def)

lemma adds_add_dep: "set (deps (add_dep d ls initial)) = {d}"
  by (simp add: add_dep_def initial_def)

lemma adds_provenance:
  assumes "d \<in> adds h frm imod"
  shows "(\<exists>found. override_for h imod = Some found \<and>
                  \<not> Label_Equal h (resolved_override frm found) frm \<and>
                  d = rendered_override h frm found)
       \<or> (override_for h imod = None \<and>
            (\<exists>c. candidates_for h frm imod = [c] \<and> c \<in> set (matches_for h imod) \<and>
                 \<not> IsSelfImport h c frm \<and> d = rendered_match h frm c))
       \<or> (override_for h imod = None \<and> matches_for h imod = [] \<and> registered_for h frm imod d)"
proof (cases "override_for h imod")
  case (Some found)
  with assms show ?thesis
    by (simp add: adds_def resolve_import_override[OF Some] add_dep_def initial_def split: if_splits)
next
  case None
  show ?thesis
  proof (cases "matches_for h imod = []")
    case False
    show ?thesis
    proof (cases "candidates_for h frm imod" rule: list_cases3)
      case 1
      with assms resolve_import_index[OF None False, of frm initial] show ?thesis
        by (simp add: adds_def initial_def)
    next
      case (2 c)
      then have "c \<in> set (candidates_for h frm imod)" by simp
      then have "c \<in> set (matches_for h imod)" "\<not> IsSelfImport h c frm"
        by (simp_all add: candidates_for_def)
      with 2 None assms resolve_import_index[OF None False, of frm initial] show ?thesis
        by (simp add: adds_def add_dep_def initial_def)
    next
      case (3 c c' cs)
      with assms resolve_import_index[OF None False, of frm initial] show ?thesis
        by (simp add: adds_def fatal_def initial_def)
    qed
  next
    case True
    have "registered_for h frm imod d"
    proof (cases "GetNamedPackage h (Path imod)")
      case (Some pkg)
      with assms resolve_import_named[OF None True Some, of frm initial] show ?thesis
        by (simp add: adds_def adds_add_dep registered_for_def)
    next
      case named: None
      show ?thesis
      proof (cases "GetImportableFile h (Path imod)")
        case (Some pkg)
        with assms resolve_import_importable[OF None True named Some, of frm initial] show ?thesis
          by (simp add: adds_def adds_add_dep registered_for_def)
      next
        case nofile: None
        from None True named nofile have "no_first_party_rule h imod"
          by (simp add: no_first_party_rule_def)
        from assms resolve_import_registries[OF this, of frm initial] show ?thesis
          by (auto simp: adds_def registered_for_def Let_def st_simps set_treeset_Add initial_def
                         fatal_def
                   split: option.splits if_splits)
      qed
    qed
    with None True show ?thesis by simp
  qed
qed


text \<open>
  Claim C2, as amended. Every string of the set that \<^verbatim>\<open>ResolveModuleDeps\<close> returns is
  contributed by one of the imports of the list, through the override rule, the index
  rule or a registry, and only the two label rules test what they add against the
  requesting target.

  The override rule skips an override that, after an unset repository is defaulted to
  the requester's, is \<^verbatim>\<open>Equal\<close> to the requesting target: the loop body then changes
  nothing. Otherwise it contributes the rendering of the override and nothing else;
  and, \<^verbatim>\<open>Equal\<close> holding of a label and itself, the override so resolved is not the
  requesting target's label, nor is the label handed to \<^verbatim>\<open>String\<close> the requesting
  target's label with its repository dropped.

  The index rule counts its candidates after the self imports are removed: the
  candidates are matches of the index, none is a self import, a match that is a self
  import is no candidate, the import contributes the rendering of its only candidate
  or nothing, and it is fatal exactly when more than one candidate is left. A match
  labelled with the requesting target being a self import, no candidate is labelled
  with the requesting target.

  The named-package and importable-file rules add the string they find, whatever it
  is, and explain it; so do the npm rules and the native-module rule add theirs.
\<close>

theorem label_rules_exclude_requester:
  "(\<forall>found. override_for h imod = Some found \<longrightarrow>
       rendered_override h frm found = Label_String h (override_label frm found)
     \<and> (Label_Equal h (resolved_override frm found) frm \<longrightarrow>
          resolve_import h frm imod st = st \<and> adds h frm imod = {})
     \<and> (\<not> Label_Equal h (resolved_override frm found) frm \<longrightarrow>
          adds h frm imod = {rendered_override h frm found}
        \<and> ((\<forall>l. Label_Equal h l l) \<longrightarrow>
              resolved_override frm found \<noteq> frm
            \<and> override_label frm found \<noteq> frm\<lparr>Repo := []\<rparr>)))
   \<and> (override_for h imod = None \<and> matches_for h imod \<noteq> [] \<longrightarrow>
       (\<forall>c\<in>set (candidates_for h frm imod).
          c \<in> set (matches_for h imod) \<and> \<not> IsSelfImport h c frm)
     \<and> (\<forall>match\<in>set (matches_for h imod).
          IsSelfImport h match frm \<longrightarrow> match \<notin> set (candidates_for h frm imod))
     \<and> adds h frm imod =
          (case candidates_for h frm imod of
             [c] \<Rightarrow> {rendered_match h frm c}
           | _ \<Rightarrow> {})
     \<and> hasFatalError (resolve_import h frm imod initial) = (1 < length (candidates_for h frm imod))
     \<and> ((\<forall>r. MatchLabel r = frm \<longrightarrow> IsSelfImport h r frm) \<longrightarrow>
          (\<forall>c\<in>set (candidates_for h frm imod). MatchLabel c \<noteq> frm)))
   \<and> (override_for h imod = None \<and> matches_for h imod = [] \<longrightarrow>
       (\<forall>pkg. GetNamedPackage h (Path imod) = Some pkg \<longrightarrow>
          resolve_import h frm imod st =
            st\<lparr>deps := treeset_Add pkg (deps st),
               logged := logged st @ explain h frm imod pkg (ByDeclaredPackage pkg)\<rparr>
        \<and> adds h frm imod = {pkg})
     \<and> (\<forall>pkg. GetNamedPackage h (Path imod) = None \<and> GetImportableFile h (Path imod) = Some pkg \<longrightarrow>
          resolve_import h frm imod st =
            st\<lparr>deps := treeset_Add pkg (deps st),
               logged := logged st @ explain h frm imod pkg (ByDeclaredPackage pkg)\<rparr>
        \<and> adds h frm imod = {pkg}))
   \<and> (no_first_party_rule h imod \<longrightarrow>
       (\<forall>pkg. GetNpmPackage (Configs h (Pkg frm)) (Path imod) = Some pkg \<longrightarrow>
          pkg \<in> adds h frm imod)
     \<and> (\<forall>typePkg. GetNpmPackage (Configs h (Pkg frm)) (''@types/'' @ Path imod) = Some typePkg \<longrightarrow>
          typePkg \<in> adds h frm imod)
     \<and> (\<forall>typePkg. no_third_party_rule h frm imod \<and> native_module h frm imod \<and>
            GetNpmPackage (Configs h (Pkg frm)) ''@types/node'' = Some typePkg \<longrightarrow>
          adds h frm imod = {typePkg}))
   \<and> (\<forall>ds. snd (ResolveModuleDeps h modules frm) = Returned ds \<longrightarrow>
          set ds = (\<Union>imod\<in>set modules. adds h frm imod)
        \<and> (\<forall>d\<in>set ds. \<exists>imod\<in>set modules.
              (\<exists>found. override_for h imod = Some found \<and>
                       \<not> Label_Equal h (resolved_override frm found) frm \<and>
                       d = rendered_override h frm found)
            \<or> (override_for h imod = None \<and>
                 (\<exists>c. candidates_for h frm imod = [c] \<and> c \<in> set (matches_for h imod) \<and>
                      \<not> IsSelfImport h c frm \<and> d = rendered_match h frm c))
            \<or> (override_for h imod = None \<and> matches_for h imod = [] \<and>
                 registered_for h frm imod d)))"
proof -
  let ?cfg = "Configs h (Pkg frm)"
  have by_override:
    "rendered_override h frm found = Label_String h (override_label frm found)
     \<and> (Label_Equal h (resolved_override frm found) frm \<longrightarrow>
          resolve_import h frm imod st = st \<and> adds h frm imod = {})
     \<and> (\<not> Label_Equal h (resolved_override frm found) frm \<longrightarrow>
          adds h frm imod = {rendered_override h frm found}
        \<and> ((\<forall>l. Label_Equal h l l) \<longrightarrow>
              resolved_override frm found \<noteq> frm
            \<and> override_label frm found \<noteq> frm\<lparr>Repo := []\<rparr>))"
    if o: "override_for h imod = Some found" for found
  proof -
    have "resolved_override frm found \<noteq> frm \<and> override_label frm found \<noteq> frm\<lparr>Repo := []\<rparr>"
      if "\<not> Label_Equal h (resolved_override frm found) frm" and "\<forall>l. Label_Equal h l l"
    proof -
      from that have "resolved_override frm found \<noteq> frm" by auto
      then show ?thesis by (simp add: override_label_not_requester)
    qed
    then show ?thesis
      by (simp add: rendered_override_label[symmetric] adds_def resolve_import_override[OF o]
            add_dep_def initial_def)
  qed
  have filtered:
    "(\<forall>c\<in>set (candidates_for h frm imod).
          c \<in> set (matches_for h imod) \<and> \<not> IsSelfImport h c frm)
     \<and> (\<forall>match\<in>set (matches_for h imod).
          IsSelfImport h match frm \<longrightarrow> match \<notin> set (candidates_for h frm imod))
     \<and> ((\<forall>r. MatchLabel r = frm \<longrightarrow> IsSelfImport h r frm) \<longrightarrow>
          (\<forall>c\<in>set (candidates_for h frm imod). MatchLabel c \<noteq> frm))"
    by (auto simp: candidates_for_def)
  have by_index:
    "adds h frm imod =
          (case candidates_for h frm imod of
             [c] \<Rightarrow> {rendered_match h frm c}
           | _ \<Rightarrow> {})
     \<and> hasFatalError (resolve_import h frm imod initial) = (1 < length (candidates_for h frm imod))"
    if "override_for h imod = None" and "matches_for h imod \<noteq> []"
    using resolve_import_index[OF that, of frm initial]
    by (cases "candidates_for h frm imod" rule: list_cases3)
       (simp_all add: adds_def add_dep_def fatal_def initial_def)
  have named:
    "resolve_import h frm imod st =
            st\<lparr>deps := treeset_Add pkg (deps st),
               logged := logged st @ explain h frm imod pkg (ByDeclaredPackage pkg)\<rparr>
        \<and> adds h frm imod = {pkg}"
    if "override_for h imod = None" and "matches_for h imod = []"
      and "GetNamedPackage h (Path imod) = Some pkg" for pkg
    by (simp add: adds_def resolve_import_named[OF that] add_dep_def initial_def)
  have importable:
    "resolve_import h frm imod st =
            st\<lparr>deps := treeset_Add pkg (deps st),
               logged := logged st @ explain h frm imod pkg (ByDeclaredPackage pkg)\<rparr>
        \<and> adds h frm imod = {pkg}"
    if "override_for h imod = None" and "matches_for h imod = []"
      and "GetNamedPackage h (Path imod) = None"
      and "GetImportableFile h (Path imod) = Some pkg" for pkg
    by (simp add: adds_def resolve_import_importable[OF that] add_dep_def initial_def)
  have npm:
    "(\<forall>pkg. GetNpmPackage ?cfg (Path imod) = Some pkg \<longrightarrow> pkg \<in> adds h frm imod)
     \<and> (\<forall>typePkg. GetNpmPackage ?cfg (''@types/'' @ Path imod) = Some typePkg \<longrightarrow>
          typePkg \<in> adds h frm imod)
     \<and> (\<forall>typePkg. no_third_party_rule h frm imod \<and> native_module h frm imod \<and>
            GetNpmPackage ?cfg ''@types/node'' = Some typePkg \<longrightarrow>
          adds h frm imod = {typePkg})"
    if r: "no_first_party_rule h imod"
    by (auto simp: adds_def resolve_import_registries[OF r] no_third_party_rule_def Let_def
                   st_simps set_treeset_Add initial_def
             split: option.splits)
  have returned:
    "set ds = (\<Union>imod\<in>set modules. adds h frm imod)
        \<and> (\<forall>d\<in>set ds. \<exists>imod\<in>set modules.
              (\<exists>found. override_for h imod = Some found \<and>
                       \<not> Label_Equal h (resolved_override frm found) frm \<and>
                       d = rendered_override h frm found)
            \<or> (override_for h imod = None \<and>
                 (\<exists>c. candidates_for h frm imod = [c] \<and> c \<in> set (matches_for h imod) \<and>
                      \<not> IsSelfImport h c frm \<and> d = rendered_match h frm c))
            \<or> (override_for h imod = None \<and> matches_for h imod = [] \<and>
                 registered_for h frm imod d))"
    if "snd (ResolveModuleDeps h modules frm) = Returned ds" for ds
  proof -
    have all: "set ds = (\<Union>imod\<in>set modules. adds h frm imod)"
      using that by (rule ResolveModuleDeps_returns(2))
    have "\<exists>imod\<in>set modules.
              (\<exists>found. override_for h imod = Some found \<and>
                       \<not> Label_Equal h (resolved_override frm found) frm \<and>
                       d = rendered_override h frm found)
            \<or> (override_for h imod = None \<and>
                 (\<exists>c. candidates_for h frm imod = [c] \<and> c \<in> set (matches_for h imod) \<and>
                      \<not> IsSelfImport h c frm \<and> d = rendered_match h frm c))
            \<or> (override_for h imod = None \<and> matches_for h imod = [] \<and>
                 registered_for h frm imod d)"
      if "d \<in> set ds" for d
    proof -
      from that all obtain m where "m \<in> set modules" and "d \<in> adds h frm m"
        by auto
      with adds_provenance[of d h frm m] show ?thesis by blast
    qed
    with all show ?thesis by blast
  qed
  have f1: "\<forall>found. override_for h imod = Some found \<longrightarrow>
       rendered_override h frm found = Label_String h (override_label frm found)
     \<and> (Label_Equal h (resolved_override frm found) frm \<longrightarrow>
          resolve_import h frm imod st = st \<and> adds h frm imod = {})
     \<and> (\<not> Label_Equal h (resolved_override frm found) frm \<longrightarrow>
          adds h frm imod = {rendered_override h frm found}
        \<and> ((\<forall>l. Label_Equal h l l) \<longrightarrow>
              resolved_override frm found \<noteq> frm
            \<and> override_label frm found \<noteq> frm\<lparr>Repo := []\<rparr>))"
    using by_override by (intro allI impI)
  have f2: "override_for h imod = None \<and> matches_for h imod \<noteq> [] \<longrightarrow>
       (\<forall>c\<in>set (candidates_for h frm imod).
          c \<in> set (matches_for h imod) \<and> \<not> IsSelfImport h c frm)
     \<and> (\<forall>match\<in>set (matches_for h imod).
          IsSelfImport h match frm \<longrightarrow> match \<notin> set (candidates_for h frm imod))
     \<and> adds h frm imod =
          (case candidates_for h frm imod of
             [c] \<Rightarrow> {rendered_match h frm c}
           | _ \<Rightarrow> {})
     \<and> hasFatalError (resolve_import h frm imod initial) = (1 < length (candidates_for h frm imod))
     \<and> ((\<forall>r. MatchLabel r = frm \<longrightarrow> IsSelfImport h r frm) \<longrightarrow>
          (\<forall>c\<in>set (candidates_for h frm imod). MatchLabel c \<noteq> frm))"
  proof (rule impI)
    assume reached: "override_for h imod = None \<and> matches_for h imod \<noteq> []"
    note resolved = by_index[OF reached[THEN conjunct1] reached[THEN conjunct2]]
    from filtered[THEN conjunct1] filtered[THEN conjunct2, THEN conjunct1]
         resolved[THEN conjunct1] resolved[THEN conjunct2]
         filtered[THEN conjunct2, THEN conjunct2]
    show "(\<forall>c\<in>set (candidates_for h frm imod).
          c \<in> set (matches_for h imod) \<and> \<not> IsSelfImport h c frm)
     \<and> (\<forall>match\<in>set (matches_for h imod).
          IsSelfImport h match frm \<longrightarrow> match \<notin> set (candidates_for h frm imod))
     \<and> adds h frm imod =
          (case candidates_for h frm imod of
             [c] \<Rightarrow> {rendered_match h frm c}
           | _ \<Rightarrow> {})
     \<and> hasFatalError (resolve_import h frm imod initial) = (1 < length (candidates_for h frm imod))
     \<and> ((\<forall>r. MatchLabel r = frm \<longrightarrow> IsSelfImport h r frm) \<longrightarrow>
          (\<forall>c\<in>set (candidates_for h frm imod). MatchLabel c \<noteq> frm))"
      by (intro conjI)
  qed
  from named importable
  have f3: "override_for h imod = None \<and> matches_for h imod = [] \<longrightarrow>
       (\<forall>pkg. GetNamedPackage h (Path imod) = Some pkg \<longrightarrow>
          resolve_import h frm imod st =
            st\<lparr>deps := treeset_Add pkg (deps st),
               logged := logged st @ explain h frm imod pkg (ByDeclaredPackage pkg)\<rparr>
        \<and> adds h frm imod = {pkg})
     \<and> (\<forall>pkg. GetNamedPackage h (Path imod) = None \<and> GetImportableFile h (Path imod) = Some pkg \<longrightarrow>
          resolve_import h frm imod st =
            st\<lparr>deps := treeset_Add pkg (deps st),
               logged := logged st @ explain h frm imod pkg (ByDeclaredPackage pkg)\<rparr>
        \<and> adds h frm imod = {pkg})"
    by (intro impI conjI allI; elim conjE) simp_all
  from npm
  have f4: "no_first_party_rule h imod \<longrightarrow>
       (\<forall>pkg. GetNpmPackage (Configs h (Pkg frm)) (Path imod) = Some pkg \<longrightarrow>
          pkg \<in> adds h frm imod)
     \<and> (\<forall>typePkg. GetNpmPackage (Configs h (Pkg frm)) (''@types/'' @ Path imod) = Some typePkg \<longrightarrow>
          typePkg \<in> adds h frm imod)
     \<and> (\<forall>typePkg. no_third_party_rule h frm imod \<and> native_module h frm imod \<and>
            GetNpmPackage (Configs h (Pkg frm)) ''@types/node'' = Some typePkg \<longrightarrow>
          adds h frm imod = {typePkg})"
    by (rule impI)
  from returned
  have f5: "\<forall>ds. snd (ResolveModuleDeps h modules frm) = Returned ds \<longrightarrow>
          set ds = (\<Union>imod\<in>set modules. adds h frm imod)
        \<and> (\<forall>d\<in>set ds. \<exists>imod\<in>set modules.
              (\<exists>found. override_for h imod = Some found \<and>
                       \<not> Label_Equal h (resolved_override frm found) frm \<and>
                       d = rendered_override h frm found)
            \<or> (override_for h imod = None \<and>
                 (\<exists>c. candidates_for h frm imod = [c] \<and> c \<in> set (matches_for h imod) \<and>
                      \<not> IsSelfImport h c frm \<and> d = rendered_match h frm c))
            \<or> (override_for h imod = None \<and> matches_for h imod = [] \<and>
                 registered_for h frm imod d))"
    by (intro allI impI)
  from f1 f2 f3 f4 f5 show ?thesis
    by (intro conjI)
qed


theorem label_rules_exclude_requester_witness:
  "override_for example_host (import_of ''app/self'') = Some (target ''app'' ''main'')
   \<and> Label_Equal example_host
        (resolved_override (target ''app'' ''main'') (target ''app'' ''main'')) (target ''app'' ''main'')
   \<and> adds example_host (target ''app'' ''main'') (import_of ''app/self'') = {}
   \<and> override_for example_host (import_of ''lib/a'') = Some (target ''lib'' ''a'')
   \<and> \<not> Label_Equal example_host
         (resolved_override (target ''app'' ''main'') (target ''lib'' ''a'')) (target ''app'' ''main'')
   \<and> (\<forall>l. Label_Equal example_host l l)
   \<and> adds example_host (target ''app'' ''main'') (import_of ''lib/a'') = {''//lib:a''}
   \<and> override_label (target ''app'' ''main'') (target ''lib'' ''a'')
        \<noteq> (target ''app'' ''main'')\<lparr>Repo := []\<rparr>
   \<and> override_for example_host (import_of ''app/one'') = None
   \<and> matches_for example_host (import_of ''app/one'')
        = [provided_by (target ''app'' ''main''), provided_by (target ''app'' ''one'')]
   \<and> candidates_for example_host (target ''app'' ''main'') (import_of ''app/one'')
        = [provided_by (target ''app'' ''one'')]
   \<and> adds example_host (target ''app'' ''main'') (import_of ''app/one'') = {'':one''}
   \<and> MatchLabel (provided_by (target ''app'' ''one'')) \<noteq> target ''app'' ''main''
   \<and> override_for example_host (import_of ''@org/lib'') = None
   \<and> matches_for example_host (import_of ''@org/lib'') = []
   \<and> GetNamedPackage example_host ''@org/lib'' = Some ''//lib:pkg''
   \<and> adds example_host (target ''app'' ''main'') (import_of ''@org/lib'') = {''//lib:pkg''}
   \<and> no_first_party_rule example_host (import_of ''react'')
   \<and> GetNpmPackage (Configs example_host ''app'') ''react'' = Some ''//:node_modules/react''
   \<and> ''//:node_modules/react'' \<in> adds example_host (target ''app'' ''main'') (import_of ''react'')
   \<and> ResolveModuleDeps example_host
        [import_of ''app/self'', import_of ''app/one'', import_of ''@org/lib''] (target ''app'' ''main'')
        = ([], Returned [''//lib:pkg'', '':one''])"
proof -
  let ?app = "target ''app'' ''main''"
  let ?one = "provided_by (target ''app'' ''one'')"
  note T = label_rules_exclude_requester[of example_host _ ?app initial
             "[import_of ''app/self'', import_of ''app/one'', import_of ''@org/lib'']"]
  note by_override = T[THEN conjunct1]
  note by_index = T[THEN conjunct2, THEN conjunct1]
  note by_file = T[THEN conjunct2, THEN conjunct2, THEN conjunct1]
  note by_npm = T[THEN conjunct2, THEN conjunct2, THEN conjunct2, THEN conjunct1]
  have o: "override_for example_host (import_of ''app/self'') = Some ?app"
    by (simp add: vocabulary example_defs)
  have self: "Label_Equal example_host (resolved_override ?app ?app) ?app"
    by (simp add: vocabulary example_defs)
  from by_override[of "import_of ''app/self''"] o self
  have a1: "adds example_host ?app (import_of ''app/self'') = {}"
    by blast
  have o': "override_for example_host (import_of ''lib/a'') = Some (target ''lib'' ''a'')"
    by (simp add: vocabulary example_defs)
  have other: "\<not> Label_Equal example_host (resolved_override ?app (target ''lib'' ''a'')) ?app"
    by (simp add: vocabulary example_defs)
  have refl: "\<forall>l. Label_Equal example_host l l"
    by (simp add: example_defs)
  have r': "rendered_override example_host ?app (target ''lib'' ''a'') = ''//lib:a''"
    by (simp add: vocabulary example_defs Let_def)
  from by_override[of "import_of ''lib/a''"] o' other
  have "adds example_host ?app (import_of ''lib/a'')
          = {rendered_override example_host ?app (target ''lib'' ''a'')}"
    by blast
  then have a2: "adds example_host ?app (import_of ''lib/a'') = {''//lib:a''}"
    by (simp only: r')
  from by_override[of "import_of ''lib/a''"] o' other refl
  have l2: "override_label ?app (target ''lib'' ''a'') \<noteq> ?app\<lparr>Repo := []\<rparr>"
    by blast
  have n: "override_for example_host (import_of ''app/one'') = None"
    by (simp add: vocabulary example_defs)
  have m: "matches_for example_host (import_of ''app/one'') = [provided_by ?app, ?one]"
    by (simp add: vocabulary example_defs)
  then have mne: "matches_for example_host (import_of ''app/one'') \<noteq> []"
    by simp
  have c: "candidates_for example_host ?app (import_of ''app/one'') = [?one]"
    by (simp add: vocabulary example_defs)
  have r: "rendered_match example_host ?app ?one = '':one''"
    by (simp add: vocabulary example_defs)
  have labelled: "\<forall>r. MatchLabel r = ?app \<longrightarrow> IsSelfImport example_host r ?app"
    by (simp add: example_defs)
  from by_index[of "import_of ''app/one''"] n mne
  have "adds example_host ?app (import_of ''app/one'') =
          (case candidates_for example_host ?app (import_of ''app/one'') of
             [c] \<Rightarrow> {rendered_match example_host ?app c}
           | _ \<Rightarrow> {})"
    by blast
  then have a3: "adds example_host ?app (import_of ''app/one'') = {'':one''}"
    by (simp only: c r list.case)
  from by_index[of "import_of ''app/one''"] n mne labelled
  have "\<forall>c\<in>set (candidates_for example_host ?app (import_of ''app/one'')). MatchLabel c \<noteq> ?app"
    by blast
  then have l3: "MatchLabel ?one \<noteq> ?app"
    by (simp add: c)
  have f: "override_for example_host (import_of ''@org/lib'') = None"
          "matches_for example_host (import_of ''@org/lib'') = []"
          "GetNamedPackage example_host ''@org/lib'' = Some ''//lib:pkg''"
    by (simp_all add: vocabulary example_defs)
  have p: "Path (import_of ''@org/lib'') = ''@org/lib''" "Path (import_of ''react'') = ''react''"
          "Pkg ?app = ''app''"
    by (simp_all add: import_of_def target_def)
  from by_file[of "import_of ''@org/lib''"] f
  have a4: "adds example_host ?app (import_of ''@org/lib'') = {''//lib:pkg''}"
    unfolding p by blast
  have g: "no_first_party_rule example_host (import_of ''react'')"
          "GetNpmPackage (Configs example_host ''app'') ''react'' = Some ''//:node_modules/react''"
    by (simp_all add: no_first_party_rule_def vocabulary example_defs)
  from by_npm[of "import_of ''react''"] g
  have a5: "''//:node_modules/react'' \<in> adds example_host ?app (import_of ''react'')"
    unfolding p by blast
  have run: "ResolveModuleDeps example_host
        [import_of ''app/self'', import_of ''app/one'', import_of ''@org/lib''] ?app
        = ([], Returned [''//lib:pkg'', '':one''])"
    by (simp add: run_defs example_defs)
  from o self a1 o' other refl a2 l2 n m c a3 l3 f a4 g a5 run show ?thesis
    by (intro conjI)
qed

text \<open>
  The claim as it was stated fails where a registry holds the requesting target: the
  importable file \<^verbatim>\<open>app/data.json\<close> is registered with the label of the target that holds
  it, \<^verbatim>\<open>//app:main\<close>, and that target imports the file. The set returned for
  \<^verbatim>\<open>//app:main\<close> then consists of \<^verbatim>\<open>//app:main\<close>. It also fails for an override that
  names the requesting target with another repository spelling: \<^verbatim>\<open>@//app:main\<close>, the
  label \<^verbatim>\<open>//app:main\<close> with the repository \<^verbatim>\<open>@\<close>, is not \<^verbatim>\<open>Equal\<close> to the requesting
  target, whose repository is empty, and is added to its set.
\<close>

theorem label_rules_exclude_requester_counterexample:
  "Label_String example_host (target ''app'' ''main'') = ''//app:main''
   \<and> GetImportableFile example_host ''app/data.json'' = Some ''//app:main''
   \<and> ResolveModuleDeps example_host [import_of ''app/data.json''] (target ''app'' ''main'')
        = ([], Returned [''//app:main''])
   \<and> ResolveModuleDeps
        (example_host\<lparr>FindRuleWithOverride :=
           (\<lambda>imp lang. Some \<lparr>Repo = ''@'', Pkg = ''app'', Name = ''main'', Relative = False\<rparr>)\<rparr>)
        [import_of ''app/self''] (target ''app'' ''main'')
        = ([], Returned [''@//app:main''])"
  by (simp add: run_defs example_defs)

subsection \<open>C5: an npm package and its types package\<close>

text \<open>
  Claim C5, as amended. Take an import that none of the first four rules matches (no
  override, no match in the index, no named package, no importable file). If its path
  and the package \<^verbatim>\<open>@types/\<close> followed by its path are both in the npm registry of the
  package, the loop body adds both strings to the dependency set, so that both are in
  the set that \<^verbatim>\<open>ResolveModuleDeps\<close> returns for any list that holds the import. If the
  \<^verbatim>\<open>@types/\<close> package alone is registered, the loop body adds that string and no other.
\<close>

theorem npm_package_with_types:
  assumes "no_first_party_rule h imod"
  shows "(\<forall>pkg typePkg.
            GetNpmPackage (Configs h (Pkg frm)) (Path imod) = Some pkg \<and>
            GetNpmPackage (Configs h (Pkg frm)) (''@types/'' @ Path imod) = Some typePkg \<longrightarrow>
              deps (resolve_import h frm imod st) = treeset_Add typePkg (treeset_Add pkg (deps st))
            \<and> adds h frm imod = {pkg, typePkg}
            \<and> (\<forall>ds. imod \<in> set modules \<and> snd (ResolveModuleDeps h modules frm) = Returned ds \<longrightarrow>
                   pkg \<in> set ds \<and> typePkg \<in> set ds))
       \<and> (\<forall>typePkg.
            GetNpmPackage (Configs h (Pkg frm)) (Path imod) = None \<and>
            GetNpmPackage (Configs h (Pkg frm)) (''@types/'' @ Path imod) = Some typePkg \<longrightarrow>
              deps (resolve_import h frm imod st) = treeset_Add typePkg (deps st)
            \<and> adds h frm imod = {typePkg})"
proof -
  let ?cfg = "Configs h (Pkg frm)"
  have both: "deps (resolve_import h frm imod st) = treeset_Add typePkg (treeset_Add pkg (deps st))
            \<and> adds h frm imod = {pkg, typePkg}
            \<and> (\<forall>ds. imod \<in> set modules \<and> snd (ResolveModuleDeps h modules frm) = Returned ds \<longrightarrow>
                   pkg \<in> set ds \<and> typePkg \<in> set ds)"
    if p: "GetNpmPackage ?cfg (Path imod) = Some pkg"
      and t: "GetNpmPackage ?cfg (''@types/'' @ Path imod) = Some typePkg" for pkg typePkg
  proof -
    have step: "deps (resolve_import h frm imod s) = treeset_Add typePkg (treeset_Add pkg (deps s))" for s
      using p t by (simp add: resolve_import_registries[OF assms] Let_def st_simps)
    then have contributed: "adds h frm imod = {pkg, typePkg}"
      by (auto simp: adds_def initial_def set_treeset_Add)
    then have "pkg \<in> set ds \<and> typePkg \<in> set ds"
      if "imod \<in> set modules" and "snd (ResolveModuleDeps h modules frm) = Returned ds" for ds
      using that ResolveModuleDeps_member[of h modules frm ds imod] by simp
    with step[of st] contributed show ?thesis by blast
  qed
  have types_only: "deps (resolve_import h frm imod st) = treeset_Add typePkg (deps st)
            \<and> adds h frm imod = {typePkg}"
    if p: "GetNpmPackage ?cfg (Path imod) = None"
      and t: "GetNpmPackage ?cfg (''@types/'' @ Path imod) = Some typePkg" for typePkg
    using p t by (simp add: adds_def resolve_import_registries[OF assms] Let_def st_simps initial_def)
  from both types_only show ?thesis by blast
qed

theorem npm_package_with_types_witness:
  "no_first_party_rule example_host (import_of ''react'')
   \<and> GetNpmPackage (Configs example_host ''app'') ''react'' = Some ''//:node_modules/react''
   \<and> GetNpmPackage (Configs example_host ''app'') ''@types/react'' = Some ''//:node_modules/@types/react''
   \<and> adds example_host (target ''app'' ''main'') (import_of ''react'')
        = {''//:node_modules/react'', ''//:node_modules/@types/react''}
   \<and> no_first_party_rule example_host (import_of ''lodash'')
   \<and> GetNpmPackage (Configs example_host ''app'') ''lodash'' = None
   \<and> GetNpmPackage (Configs example_host ''app'') ''@types/lodash'' = Some ''//:node_modules/@types/lodash''
   \<and> adds example_host (target ''app'' ''main'') (import_of ''lodash'') = {''//:node_modules/@types/lodash''}
   \<and> ResolveModuleDeps example_host [import_of ''react'', import_of ''lodash''] (target ''app'' ''main'')
        = ([], Returned [''//:node_modules/@types/lodash'', ''//:node_modules/@types/react'',
                         ''//:node_modules/react''])"
proof -
  let ?app = "target ''app'' ''main''"
  have r: "no_first_party_rule example_host (import_of ''react'')"
          "GetNpmPackage (Configs example_host ''app'') ''react'' = Some ''//:node_modules/react''"
          "GetNpmPackage (Configs example_host ''app'') ''@types/react'' = Some ''//:node_modules/@types/react''"
    by (simp_all add: no_first_party_rule_def vocabulary example_defs)
  have l: "no_first_party_rule example_host (import_of ''lodash'')"
          "GetNpmPackage (Configs example_host ''app'') ''lodash'' = None"
          "GetNpmPackage (Configs example_host ''app'') ''@types/lodash'' = Some ''//:node_modules/@types/lodash''"
    by (simp_all add: no_first_party_rule_def vocabulary example_defs)
  have at: "Pkg ?app = ''app''" "Path (import_of ''react'') = ''react''" "Path (import_of ''lodash'') = ''lodash''"
    by (simp_all add: target_def import_of_def)
  have run: "ResolveModuleDeps example_host [import_of ''react'', import_of ''lodash''] ?app
        = ([], Returned [''//:node_modules/@types/lodash'', ''//:node_modules/@types/react'',
                         ''//:node_modules/react''])"
    by (simp add: run_defs example_defs)
  from npm_package_with_types[OF r(1), of ?app initial] r(2,3)
  have a1: "adds example_host ?app (import_of ''react'')
              = {''//:node_modules/react'', ''//:node_modules/@types/react''}"
    by (simp add: at)
  from npm_package_with_types[OF l(1), of ?app initial] l(2,3)
  have a2: "adds example_host ?app (import_of ''lodash'') = {''//:node_modules/@types/lodash''}"
    by (simp add: at)
  from r a1 l a2 run show ?thesis by (intro conjI)
qed

text \<open>
  The claim as it was stated fails for an import that an earlier rule resolves:
  \<^verbatim>\<open>jquery\<close> and \<^verbatim>\<open>@types/jquery\<close> are both registered, but a directive resolves
  \<^verbatim>\<open>jquery\<close> to \<^verbatim>\<open>@vendor//jquery\<close>, and neither registered string is in the set.
\<close>

theorem npm_package_with_types_counterexample:
  "GetNpmPackage (Configs example_host ''app'') ''jquery'' = Some ''//:node_modules/jquery''
   \<and> GetNpmPackage (Configs example_host ''app'') ''@types/jquery'' = Some ''//:node_modules/@types/jquery''
   \<and> ''//:node_modules/jquery'' \<notin> adds example_host (target ''app'' ''main'') (import_of ''jquery'')
   \<and> ''//:node_modules/@types/jquery'' \<notin> adds example_host (target ''app'' ''main'') (import_of ''jquery'')
   \<and> ResolveModuleDeps example_host [import_of ''jquery''] (target ''app'' ''main'')
        = ([], Returned [''@vendor//jquery''])"
  by (simp add: adds_def run_defs example_defs vocabulary)

subsection \<open>C8: the directory of an index file\<close>

lemmas path_defs = Imports_def src_provides_def src_printed_def filepath_Clean_def filepath_Join_def
  filepath_Dir_def strings_TrimRight_def Let_def

lemma strings_TrimRight_unchanged:
  assumes "s = [] \<or> last s \<notin> set cutset"
  shows "strings_TrimRight s cutset = s"
proof (cases s rule: rev_cases)
  case Nil
  then show ?thesis by (simp add: strings_TrimRight_def)
next
  case (snoc ys y)
  with assms show ?thesis by (simp add: strings_TrimRight_def)
qed

lemma src_provides_index_file:
  assumes "src = filepath_Clean (filepath_Join pkg src0)"
      and "isIndexFile h src"
  shows "\<lparr>Lang = languageName h, Imp = stripImportExtensions h src\<rparr> \<in> set (src_provides h pkg src0)"
    and "\<lparr>Lang = languageName h,
          Imp = strings_TrimRight (filepath_Dir (stripImportExtensions h src)) (indexFileName h)\<rparr>
         \<in> set (src_provides h pkg src0)"
  using assms by (auto simp: src_provides_def Let_def split: option.splits)

text \<open>
  Claim C8 says that an index file \<^verbatim>\<open>a/index.ts\<close> registers its directory \<^verbatim>\<open>a\<close>
  beside \<^verbatim>\<open>a/index\<close>, for every directory. The code registers
  \<^verbatim>\<open>strings.TrimRight(filepath.Dir(spec), indexFileName)\<close>, and \<^verbatim>\<open>TrimRight\<close> takes its
  second argument as a set of characters: the directory loses every trailing
  \<^verbatim>\<open>i\<close>, \<^verbatim>\<open>n\<close>, \<^verbatim>\<open>d\<close>, \<^verbatim>\<open>e\<close> and \<^verbatim>\<open>x\<close>. For \<^verbatim>\<open>index.ts\<close> in the package \<^verbatim>\<open>admin\<close> the
  directory of the spec is \<^verbatim>\<open>admin\<close> and what is registered is \<^verbatim>\<open>adm\<close>; in the package
  \<^verbatim>\<open>lib\<close>, whose name ends in none of these letters, it is \<^verbatim>\<open>lib\<close>.
\<close>

theorem Imports_index_file_trims_directory:
  "Imports example_host [''index.ts''] ''admin''
     = ([], Some [\<lparr>Lang = ''js'', Imp = ''admin/index''\<rparr>, \<lparr>Lang = ''js'', Imp = ''adm''\<rparr>])
   \<and> filepath_Dir ''admin/index'' = ''admin''
   \<and> strings_TrimRight ''admin'' ''index'' = ''adm''
   \<and> Imports example_host [''index.ts''] ''lib''
     = ([], Some [\<lparr>Lang = ''js'', Imp = ''lib/index''\<rparr>, \<lparr>Lang = ''js'', Imp = ''lib''\<rparr>])"
  by (simp add: path_defs example_defs)

subsection \<open>C9: which additions are explained\<close>

lemma types_beside_package_not_explained:
  assumes "no_first_party_rule h imod"
      and "GetNpmPackage (Configs h (Pkg frm)) (Path imod) = Some pkg"
      and "GetNpmPackage (Configs h (Pkg frm)) (''@types/'' @ Path imod) = Some typePkg"
  shows "logged (resolve_import h frm imod st) =
           logged st @ explain h frm imod pkg (ByThirdPartyPackage pkg)"
  using assms(2,3) by (simp add: resolve_import_registries[OF assms(1)] Let_def st_simps)

lemma native_module_not_explained:
  assumes "no_first_party_rule h imod"
      and "no_third_party_rule h frm imod"
      and "native_module h frm imod"
  shows "logged (resolve_import h frm imod st) = logged st"
  using assms(2,3)
  by (simp add: resolve_import_registries[OF assms(1)] no_third_party_rule_def Let_def st_simps
           split: option.splits)

text \<open>
  Claim C9 says that every branch that adds a dependency equal to
  \<^verbatim>\<open>EXPLAIN_DEPENDENCY\<close> logs an explanation, the types package added beside an npm
  package and the native-module fallback included. Those two additions (lines 211 to
  213 and 224 to 226) are not followed by the test that follows the five others. With
  \<^verbatim>\<open>EXPLAIN_DEPENDENCY\<close> set to the types package of \<^verbatim>\<open>react\<close>, importing \<^verbatim>\<open>react\<close> adds
  that package and logs nothing; set to \<^verbatim>\<open>@types/node\<close>, importing \<^verbatim>\<open>fs\<close> adds it and
  logs nothing. The rule for a types package alone, lines 214 to 221, does explain
  the same kind of addition: importing \<^verbatim>\<open>lodash\<close> logs the line.
\<close>

theorem types_additions_are_not_explained:
  "ResolveModuleDeps (example_host\<lparr>EXPLAIN_DEPENDENCY := ''//:node_modules/@types/react''\<rparr>)
     [import_of ''react''] (target ''app'' ''main'')
     = ([], Returned [''//:node_modules/@types/react'', ''//:node_modules/react''])
   \<and> ResolveModuleDeps (example_host\<lparr>EXPLAIN_DEPENDENCY := ''//:node_modules/@types/node''\<rparr>)
     [import_of ''fs''] (target ''app'' ''main'')
     = ([], Returned [''//:node_modules/@types/node''])
   \<and> ResolveModuleDeps (example_host\<lparr>EXPLAIN_DEPENDENCY := ''//:node_modules/@types/lodash''\<rparr>)
     [import_of ''lodash''] (target ''app'' ''main'')
     = ([Explaining ''//:node_modules/@types/lodash'' ''//app:main'' ''app/main.ts'' ''lodash''
           (ByThirdPartyTypesPackage ''//:node_modules/@types/lodash'')],
        Returned [''//:node_modules/@types/lodash''])"
  by (simp add: run_defs example_defs)

end
